theory Spec2Isabelle
  imports Main "HOL-Library.Word"
begin

section \<open>Data model of \<open>managed_connections.cc\<close>\<close>

text \<open>
  The connection manager of \<open>src/maidsafe/rudp/managed_connections.cc\<close>. The manager keeps
  three indices (\<open>connections_\<close>, \<open>pendings_\<close>, \<open>idle_transports_\<close>) and the chosen bootstrap
  contact; it talks to opaque \<open>Transport\<close> objects through shared pointers. The classes
  \<open>NodeId\<close>, \<open>Endpoint\<close>, \<open>Contact\<close>, \<open>Transport\<close>, \<open>Connection\<close>, \<open>NatType\<close> and \<open>Parameters\<close>
  are declared in headers that the source file only includes; what the source file reads of
  them is taken as data here.
\<close>

text \<open>
  Modelled from the spec: \<open>NodeId\<close> (declared in \<open>maidsafe/common/node_id.h\<close>), an opaque
  identifier with equality, an order (it is the key of a \<open>std::map\<close>) and a validity
  predicate. The default-constructed identifier \<open>NodeId()\<close> is \<open>0\<close> and is the invalid one.
\<close>

type_synonym NodeId = nat

definition IsValid_id :: "NodeId \<Rightarrow> bool" where
  "IsValid_id n = (n \<noteq> 0)"

text \<open>
  \<open>Endpoint\<close> is a \<open>boost::asio::ip::udp::endpoint\<close>: an address and a port. Address \<open>0\<close>
  is the unspecified address; the default-constructed endpoint has address \<open>0\<close> and port \<open>0\<close>.
\<close>

record Endpoint =
  address :: nat
  port :: nat

definition is_unspecified :: "nat \<Rightarrow> bool" where
  "is_unspecified a = (a = 0)"

definition Endpoint_default :: Endpoint where
  "Endpoint_default = \<lparr>address = 0, port = 0\<rparr>"

record EndpointPair =
  local :: Endpoint
  external :: Endpoint

text \<open>
  Modelled from the spec: \<open>Contact\<close> (declared in \<open>maidsafe/rudp/contact.h\<close>) is
  \<open>{id, endpoint_pair, public_key}\<close>; the default-constructed contact \<open>Contact()\<close> carries the
  default (invalid) identifier.
\<close>

record Contact =
  id_contact :: NodeId
  endpoint_pair :: EndpointPair
  public_key :: string

definition Contact_default :: Contact where
  "Contact_default =
     \<lparr>id_contact = 0,
      endpoint_pair = \<lparr>local = Endpoint_default, external = Endpoint_default\<rparr>,
      public_key = []\<rparr>"

text \<open>
  Modelled from the spec: the NAT type is one of unknown, symmetric, or another (cone-like)
  type; the source names \<open>NatType::kUnknown\<close> and \<open>NatType::kSymmetric\<close>.
\<close>

datatype NatType = kUnknown | kSymmetric | kOther

text \<open>
  Modelled from the spec: the states of a \<open>detail::Connection\<close>; the source names
  \<open>kBootstrapping\<close>, \<open>kUnvalidated\<close> and \<open>kPermanent\<close>.
\<close>

datatype State = kBootstrapping | kUnvalidated | kPermanent | kTemporary

text \<open>What the manager reads of a \<open>Connection\<close>: its state and its socket's peer endpoint.\<close>

record Connection =
  state :: State
  PeerEndpoint :: Endpoint

text \<open>
  A \<open>TransportPtr\<close> is a shared pointer, modelled by the address it holds; two pointers are
  equal iff they point to the same transport. \<open>idle_transports_\<close> is a \<open>std::set\<close> of such
  pointers, ordered by address.
\<close>

type_synonym TransportPtr = nat

text \<open>
  What the manager observes of a transport at the time of a call. \<open>Send\<close> tells whether
  \<open>Transport::Send(peer_id, message, handler)\<close> accepts the message.
\<close>

record Transport =
  local_endpoint :: Endpoint
  external_endpoint :: Endpoint
  IsIdle :: bool
  IsAvailable :: bool
  GetConnection :: "NodeId \<Rightarrow> Connection option"
  NormalConnectionsCount :: nat
  Send :: "NodeId \<Rightarrow> string \<Rightarrow> bool"

type_synonym heap = "TransportPtr \<Rightarrow> Transport"

text \<open>
  \<open>PendingConnection\<close>: the timer is an asynchronous deadline and not part of the sequential
  model; \<open>connecting\<close> is initialised to \<open>false\<close> by the constructor.
\<close>

record PendingConnection =
  node_id :: NodeId
  pending_transport :: TransportPtr
  connecting :: bool

definition PendingConnection_new :: "NodeId \<Rightarrow> TransportPtr \<Rightarrow> PendingConnection" where
  "PendingConnection_new n t = \<lparr>node_id = n, pending_transport = t, connecting = False\<rparr>"

text \<open>
  The fields of \<open>ManagedConnections\<close> guarded by its mutex. \<open>connections\<close> is the
  \<open>std::map\<close> from peer to transport, kept as the list of its entries in key order;
  \<open>pendings\<close> is the vector of pending attempts; \<open>idle_transports\<close> is the \<open>std::set\<close>, kept
  as the list of its elements in order; \<open>listener\<close> tells whether \<open>listener_.lock()\<close> yields
  a listener.
\<close>

record ManagedConnections =
  this_node_id :: NodeId
  chosen_bootstrap_contact :: Contact
  connections :: "(NodeId \<times> TransportPtr) list"
  pendings :: "PendingConnection list"
  idle_transports :: "TransportPtr list"
  listener :: bool
  nat_type :: NatType

text \<open>
  Constants and helpers of the headers that the source file uses: \<open>Parameters::max_transports\<close>,
  \<open>detail::Transport::kMaxConnections()\<close>, \<open>detail::IsValid\<close> on endpoints, and whether the
  file is compiled with \<open>NDEBUG\<close> (then \<open>assert\<close> and \<open>BOOST_ASSERT\<close> expand to nothing and
  the \<open>#ifndef NDEBUG\<close> block is left out).
\<close>

record Parameters =
  max_transports :: int
  kMaxConnections :: nat
  IsValid :: "Endpoint \<Rightarrow> bool"
  NDEBUG :: bool

datatype RudpErrors =
    failed_to_bootstrap
  | already_connected
  | connection_already_in_progress
  | not_connected
  | operation_not_supported

text \<open>
  What a call does to the outside, in the order it does it. The error handed to a handler is
  \<open>None\<close> for success (\<open>error_code()\<close>, \<open>Error()\<close>).
\<close>

datatype Event =
    Handler "RudpErrors option"
  | DetachedHandler "RudpErrors option"
  | BootstrapHandler "RudpErrors option" Contact
  | ConnectionLost NodeId
  | Close TransportPtr
  | Connect TransportPtr NodeId EndpointPair string
  | SendCall TransportPtr NodeId string
  | SetBestGuessExternalEndpoint TransportPtr Endpoint
  | StartNewTransportCall

text \<open>
  How a call can end without returning: a failed assertion (debug builds only), or
  \<open>std::bad_function_call\<close> thrown by invoking an empty \<open>std::function\<close>.
\<close>

datatype Abort = AssertionFailed | bad_function_call

subsection \<open>Containers\<close>

text \<open>\<open>static_cast<int>\<close> of a \<open>size_t\<close>: the low 32 bits, read as two's complement.\<close>

definition static_cast_int :: "nat \<Rightarrow> int" where
  "static_cast_int n = sint (word_of_nat n :: 32 word)"

text \<open>\<open>std::map::find\<close>, \<open>insert\<close> (which never overwrites) and \<open>erase\<close> by key.\<close>

definition map_find :: "NodeId \<Rightarrow> (NodeId \<times> TransportPtr) list \<Rightarrow> TransportPtr option" where
  "map_find k m = map_of m k"

definition map_insert ::
  "NodeId \<times> TransportPtr \<Rightarrow> (NodeId \<times> TransportPtr) list \<Rightarrow> (NodeId \<times> TransportPtr) list \<times> bool"
where
  "map_insert e m =
     (case map_find (fst e) m of
        None \<Rightarrow> (insort_key fst e m, True)
      | Some t \<Rightarrow> (m, False))"

definition map_erase :: "NodeId \<Rightarrow> (NodeId \<times> TransportPtr) list \<Rightarrow> (NodeId \<times> TransportPtr) list" where
  "map_erase k m = filter (\<lambda>e. fst e \<noteq> k) m"

text \<open>\<open>std::set::insert\<close> and \<open>erase\<close> by value.\<close>

definition set_insert :: "TransportPtr \<Rightarrow> TransportPtr list \<Rightarrow> TransportPtr list" where
  "set_insert t xs = (if t \<in> set xs then xs else insort t xs)"

definition set_erase :: "TransportPtr \<Rightarrow> TransportPtr list \<Rightarrow> TransportPtr list" where
  "set_erase t xs = removeAll t xs"

text \<open>\<open>std::vector::erase\<close> at a position.\<close>

definition vector_erase :: "nat \<Rightarrow> 'a list \<Rightarrow> 'a list" where
  "vector_erase i xs = take i xs @ drop (Suc i) xs"

section \<open>Endpoint selection\<close>

text \<open>
  \<open>ShouldStartNewTransport\<close>, lines 354-367. The product
  \<open>Parameters::max_transports * detail::Transport::kMaxConnections()\<close> is taken over the
  integers.
\<close>

definition ShouldStartNewTransport :: "Parameters \<Rightarrow> EndpointPair \<Rightarrow> ManagedConnections \<Rightarrow> bool" where
  "ShouldStartNewTransport cfg peer_endpoint_pair s =
     (if nat_type s = kSymmetric \<and>
         static_cast_int (length (connections s)) < max_transports cfg * int (kMaxConnections cfg)
      then (if IsValid cfg (external peer_endpoint_pair) then True
            else \<not> IsValid cfg (local peer_endpoint_pair))
      else static_cast_int (length (connections s)) < max_transports cfg)"

text \<open>
  \<open>FindPendingTransportWithNodeId\<close>, lines 386-400: \<open>std::find_if\<close> over the vector; the
  iterator is the position of the first pending whose \<open>node_id\<close> is \<open>peer_id\<close>, \<open>None\<close> for
  \<open>pendings_.end()\<close>.
\<close>

fun FindPendingTransportWithNodeId :: "NodeId \<Rightarrow> PendingConnection list \<Rightarrow> nat option" where
  "FindPendingTransportWithNodeId peer_id [] = None"
| "FindPendingTransportWithNodeId peer_id (element # rest) =
     (if node_id element = peer_id then Some 0
      else map_option Suc (FindPendingTransportWithNodeId peer_id rest))"

text \<open>\<open>AddPending\<close>, lines 369-378 (the timer's expiry is a later, separate event).\<close>

definition AddPending :: "PendingConnection \<Rightarrow> ManagedConnections \<Rightarrow> ManagedConnections" where
  "AddPending connection s = s\<lparr>pendings := pendings s @ [connection]\<rparr>"

text \<open>\<open>RemovePending\<close>, lines 380-384.\<close>

definition RemovePending :: "NodeId \<Rightarrow> ManagedConnections \<Rightarrow> ManagedConnections" where
  "RemovePending peer_id s =
     (case FindPendingTransportWithNodeId peer_id (pendings s) of
        None \<Rightarrow> s
      | Some itr \<Rightarrow> s\<lparr>pendings := vector_erase itr (pendings s)\<rparr>)"

text \<open>
  \<open>ExistingConnectionAttempt\<close>, lines 255-265. The result is the returned flag and the
  out-parameter \<open>this_endpoint_pair\<close>.
\<close>

definition ExistingConnectionAttempt ::
  "Parameters \<Rightarrow> heap \<Rightarrow> NodeId \<Rightarrow> EndpointPair \<Rightarrow> ManagedConnections \<Rightarrow> Abort + (bool \<times> EndpointPair)"
where
  "ExistingConnectionAttempt cfg h peer_id this_endpoint_pair s =
     (case FindPendingTransportWithNodeId peer_id (pendings s) of
        None \<Rightarrow> Inr (False, this_endpoint_pair)
      | Some existing_attempt \<Rightarrow>
          (if \<not> NDEBUG cfg \<and> \<not> IsAvailable (h (pending_transport (pendings s ! existing_attempt)))
           then Inl AssertionFailed
           else Inr (True,
                  \<lparr>local = local_endpoint (h (pending_transport (pendings s ! existing_attempt))),
                   external = external_endpoint (h (pending_transport (pendings s ! existing_attempt)))\<rparr>)))"

text \<open>
  \<open>ExistingConnection\<close>, lines 267-300. The result is the returned flag, the out-parameters
  \<open>this_endpoint_pair\<close> and \<open>connection_exists\<close>, and the manager.
\<close>

definition ExistingConnection ::
  "Parameters \<Rightarrow> heap \<Rightarrow> NodeId \<Rightarrow> EndpointPair \<Rightarrow> bool \<Rightarrow> ManagedConnections
     \<Rightarrow> Abort + (bool \<times> EndpointPair \<times> bool \<times> ManagedConnections)"
where
  "ExistingConnection cfg h peer_id this_endpoint_pair connection_exists s =
     (case map_find peer_id (connections s) of
        None \<Rightarrow> Inr (False, this_endpoint_pair, connection_exists, s)
      | Some itr \<Rightarrow>
          (case GetConnection (h itr) peer_id of
             None \<Rightarrow>
               Inr (False, this_endpoint_pair, connection_exists,
                    s\<lparr>connections := map_erase peer_id (connections s)\<rparr>)
           | Some connection \<Rightarrow>
               (if state connection = kBootstrapping \<or> state connection = kUnvalidated
                then
                  (if \<not> NDEBUG cfg \<and> \<not> IsAvailable (h itr) then Inl AssertionFailed
                   else if \<not> NDEBUG cfg \<and> FindPendingTransportWithNodeId peer_id (pendings s) \<noteq> None
                   then Inl AssertionFailed
                   else Inr (True,
                          \<lparr>local = local_endpoint (h itr), external = external_endpoint (h itr)\<rparr>,
                          False,
                          if state connection = kBootstrapping
                          then AddPending (PendingConnection_new peer_id itr) s
                          else s))
                else Inr (True, this_endpoint_pair, True, s))))"

text \<open>
  \<open>SelectIdleTransport\<close>, lines 302-318: the loop takes the first idle transport, binds a
  pending to it if it is available, and drops it from the set otherwise.
\<close>

function SelectIdleTransport ::
  "Parameters \<Rightarrow> heap \<Rightarrow> NodeId \<Rightarrow> EndpointPair \<Rightarrow> ManagedConnections
     \<Rightarrow> Abort + (bool \<times> EndpointPair \<times> ManagedConnections)"
where
  "SelectIdleTransport cfg h peer_id this_endpoint_pair s =
     (case idle_transports s of
        [] \<Rightarrow> Inr (False, this_endpoint_pair, s)
      | begin # rest \<Rightarrow>
          (if IsAvailable (h begin)
           then (if \<not> NDEBUG cfg \<and> FindPendingTransportWithNodeId peer_id (pendings s) \<noteq> None
                 then Inl AssertionFailed
                 else Inr (True,
                        \<lparr>local = local_endpoint (h begin), external = external_endpoint (h begin)\<rparr>,
                        AddPending (PendingConnection_new peer_id begin) s))
           else SelectIdleTransport cfg h peer_id this_endpoint_pair (s\<lparr>idle_transports := rest\<rparr>)))"
  by pat_completeness auto
termination
  by (relation "measure (\<lambda>(cfg, h, peer_id, p, s). length (idle_transports s))") auto

declare SelectIdleTransport.simps [simp del]

text \<open>\<open>GetAvailableTransport\<close>, lines 341-352; \<open>None\<close> is the null pointer.\<close>

definition GetAvailableTransport :: "Parameters \<Rightarrow> heap \<Rightarrow> ManagedConnections \<Rightarrow> TransportPtr option" where
  "GetAvailableTransport cfg h s =
     snd (foldl
            (\<lambda>(least_connections, selected_transport) element.
               if NormalConnectionsCount (h (snd element)) < least_connections
               then (NormalConnectionsCount (h (snd element)), Some (snd element))
               else (least_connections, selected_transport))
            (kMaxConnections cfg, None)
            (connections s))"

text \<open>\<open>SelectAnyTransport\<close>, lines 320-339.\<close>

definition SelectAnyTransport ::
  "Parameters \<Rightarrow> heap \<Rightarrow> NodeId \<Rightarrow> EndpointPair \<Rightarrow> ManagedConnections
     \<Rightarrow> Abort + (bool \<times> EndpointPair \<times> ManagedConnections)"
where
  "SelectAnyTransport cfg h peer_id this_endpoint_pair s =
     (case SelectIdleTransport cfg h peer_id this_endpoint_pair s of
        Inl a \<Rightarrow> Inl a
      | Inr (found, pair1, s1) \<Rightarrow>
          (if found then Inr (True, pair1, s1)
           else
             (case GetAvailableTransport cfg h s1 of
                None \<Rightarrow> Inr (False, pair1, s1)
              | Some selected_transport \<Rightarrow>
                  (if \<not> NDEBUG cfg \<and> \<not> IsAvailable (h selected_transport) then Inl AssertionFailed
                   else if \<not> NDEBUG cfg \<and> FindPendingTransportWithNodeId peer_id (pendings s1) \<noteq> None
                   then Inl AssertionFailed
                   else Inr (True,
                          \<lparr>local = local_endpoint (h selected_transport),
                           external = external_endpoint (h selected_transport)\<rparr>,
                          AddPending (PendingConnection_new peer_id selected_transport) s1)))))"

section \<open>Public operations\<close>

text \<open>
  Invoking a completion handler: \<open>handler\<close> tells whether the \<open>std::function\<close> holds a
  target; invoking an empty one throws.
\<close>

definition invoke ::
  "bool \<Rightarrow> RudpErrors option \<Rightarrow> ManagedConnections \<Rightarrow> Event list
     \<Rightarrow> Abort + (ManagedConnections \<times> Event list)"
where
  "invoke handler e s done = (if handler then Inr (s, done @ [Handler e]) else Inl bad_function_call)"

text \<open>\<open>DoAdd\<close>, lines 402-460.\<close>

definition DoAdd ::
  "Parameters \<Rightarrow> heap \<Rightarrow> Contact \<Rightarrow> bool \<Rightarrow> ManagedConnections \<Rightarrow> Abort + (ManagedConnections \<times> Event list)"
where
  "DoAdd cfg h peer handler s =
     (if id_contact peer = this_node_id s then invoke handler (Some operation_not_supported) s []
      else
        (case FindPendingTransportWithNodeId (id_contact peer) (pendings s) of
           None \<Rightarrow>
             (if map_find (id_contact peer) (connections s) \<noteq> None
              then invoke handler (Some already_connected) s []
              else invoke handler (Some operation_not_supported) s [])
         | Some itr \<Rightarrow>
             (if connecting (pendings s ! itr)
              then invoke handler (Some connection_already_in_progress) s []
              else
                (case GetConnection (h (pending_transport (pendings s ! itr))) (id_contact peer) of
                   Some connection \<Rightarrow>
                     (if state connection = kBootstrapping \<or>
                         (id_contact (chosen_bootstrap_contact s) = id_contact peer \<and>
                          state connection = kPermanent)
                      then
                        (if state connection = kBootstrapping \<and> \<not> NDEBUG cfg \<and>
                            \<not> (if IsValid cfg Endpoint_default
                               then Endpoint_default = PeerEndpoint connection else True)
                         then Inl AssertionFailed
                         else invoke handler None
                                (s\<lparr>pendings := (pendings s)[itr := (pendings s ! itr)\<lparr>connecting := True\<rparr>]\<rparr>) [])
                      else invoke handler (Some already_connected)
                             (s\<lparr>pendings :=
                                  vector_erase itr
                                    ((pendings s)[itr := (pendings s ! itr)\<lparr>connecting := True\<rparr>])\<rparr>) [])
                 | None \<Rightarrow>
                     Inr (s\<lparr>pendings := (pendings s)[itr := (pendings s ! itr)\<lparr>connecting := True\<rparr>]\<rparr>,
                          [Connect (pending_transport (pendings s ! itr)) (id_contact peer)
                             (endpoint_pair peer) (public_key peer)])))))"

text \<open>
  \<open>DoSend\<close>, lines 484-508. The transport is handed the message whenever the peer is in the
  map; the manager itself invokes the handler only when no transport accepted the message.
\<close>

definition DoSend ::
  "heap \<Rightarrow> NodeId \<Rightarrow> string \<Rightarrow> bool \<Rightarrow> ManagedConnections \<Rightarrow> Abort + (ManagedConnections \<times> Event list)"
where
  "DoSend h peer_id message handler s =
     (if peer_id = this_node_id s then invoke handler (Some operation_not_supported) s []
      else
        (case map_find peer_id (connections s) of
           Some itr \<Rightarrow>
             (if Send (h itr) peer_id message then Inr (s, [SendCall itr peer_id message])
              else if handler
              then (if connections s \<noteq> [] \<or> idle_transports s \<noteq> []
                    then Inr (s, [SendCall itr peer_id message, Handler (Some not_connected)])
                    else Inr (s, [SendCall itr peer_id message, DetachedHandler (Some not_connected)]))
              else Inr (s, [SendCall itr peer_id message]))
         | None \<Rightarrow>
             (if handler
              then (if connections s \<noteq> [] \<or> idle_transports s \<noteq> []
                    then Inr (s, [Handler (Some not_connected)])
                    else Inr (s, [DetachedHandler (Some not_connected)]))
              else Inr (s, []))))"

section \<open>Transport callbacks\<close>

text \<open>\<open>UpdateIdleTransports\<close>, lines 564-571.\<close>

definition UpdateIdleTransports ::
  "Parameters \<Rightarrow> heap \<Rightarrow> TransportPtr \<Rightarrow> ManagedConnections \<Rightarrow> Abort + ManagedConnections"
where
  "UpdateIdleTransports cfg h transport s =
     (if IsIdle (h transport)
      then (if \<not> NDEBUG cfg \<and> \<not> IsAvailable (h transport) then Inl AssertionFailed
            else Inr (s\<lparr>idle_transports := set_insert transport (idle_transports s)\<rparr>))
      else Inr (s\<lparr>idle_transports := set_erase transport (idle_transports s)\<rparr>))"

text \<open>The \<open>#ifndef NDEBUG\<close> block of \<open>OnConnectionAddedSlot\<close>, lines 552-561.\<close>

definition purge_unavailable :: "Parameters \<Rightarrow> heap \<Rightarrow> ManagedConnections \<Rightarrow> ManagedConnections" where
  "purge_unavailable cfg h s =
     (if NDEBUG cfg then s
      else s\<lparr>idle_transports := filter (\<lambda>itr. IsAvailable (h itr)) (idle_transports s)\<rparr>)"

text \<open>
  \<open>OnConnectionAddedSlot\<close>, lines 527-562. The result is the manager and the out-parameter
  \<open>is_duplicate_normal_connection\<close>.
\<close>

definition OnConnectionAddedSlot ::
  "Parameters \<Rightarrow> heap \<Rightarrow> NodeId \<Rightarrow> TransportPtr \<Rightarrow> bool \<Rightarrow> ManagedConnections
     \<Rightarrow> Abort + (ManagedConnections \<times> bool)"
where
  "OnConnectionAddedSlot cfg h peer_id transport temporary_connection s =
     (if temporary_connection
      then (case UpdateIdleTransports cfg h transport s of
              Inl a \<Rightarrow> Inl a
            | Inr s1 \<Rightarrow> Inr (purge_unavailable cfg h s1, False))
      else
        (case map_insert (peer_id, transport) (connections (RemovePending peer_id s)) of
           (result, inserted) \<Rightarrow>
             (if inserted
              then Inr (purge_unavailable cfg h
                          ((RemovePending peer_id s)
                             \<lparr>connections := result,
                              idle_transports :=
                                set_erase transport (idle_transports (RemovePending peer_id s))\<rparr>),
                        False)
              else
                (case UpdateIdleTransports cfg h transport
                        ((RemovePending peer_id s)\<lparr>connections := result\<rparr>) of
                   Inl a \<Rightarrow> Inl a
                 | Inr s1 \<Rightarrow> Inr (purge_unavailable cfg h s1, True)))))"

text \<open>\<open>OnConnectionLostSlot\<close>, lines 573-602.\<close>

definition OnConnectionLostSlot ::
  "Parameters \<Rightarrow> heap \<Rightarrow> NodeId \<Rightarrow> TransportPtr \<Rightarrow> bool \<Rightarrow> ManagedConnections
     \<Rightarrow> Abort + (ManagedConnections \<times> Event list)"
where
  "OnConnectionLostSlot cfg h peer_id transport temporary_connection s =
     (case UpdateIdleTransports cfg h transport s of
        Inl a \<Rightarrow> Inl a
      | Inr s1 \<Rightarrow>
          (if temporary_connection then Inr (s1, [])
           else
             (case map_find peer_id (connections (RemovePending peer_id s1)) of
                None \<Rightarrow> Inr (RemovePending peer_id s1, [])
              | Some itr \<Rightarrow>
                  (if itr \<noteq> transport \<and> \<not> NDEBUG cfg then Inl AssertionFailed
                   else
                     Inr ((RemovePending peer_id s1)
                            \<lparr>connections := map_erase peer_id (connections (RemovePending peer_id s1)),
                             chosen_bootstrap_contact :=
                               (if peer_id = id_contact (chosen_bootstrap_contact s1)
                                then Contact_default else chosen_bootstrap_contact s1)\<rparr>,
                          if listener s1 then [ConnectionLost peer_id] else [])))))"

section \<open>Bootstrapping\<close>

text \<open>\<open>kSuccess\<close> of \<open>return_codes.h\<close>.\<close>

definition kSuccess :: int where
  "kSuccess = 0"

text \<open>
  The \<open>on_bootstrap\<close> lambda of \<open>StartNewTransport\<close>, lines 178-201. It captures the new
  \<open>transport\<close>, the inferred \<open>external_address\<close> and the caller's \<open>handler\<close>.
\<close>

definition invoke_bootstrap ::
  "bool \<Rightarrow> RudpErrors option \<Rightarrow> Contact \<Rightarrow> ManagedConnections \<Rightarrow> Event list
     \<Rightarrow> Abort + (ManagedConnections \<times> Event list)"
where
  "invoke_bootstrap handler e c s done =
     (if handler then Inr (s, done @ [BootstrapHandler e c]) else Inl bad_function_call)"

definition on_bootstrap ::
  "Parameters \<Rightarrow> heap \<Rightarrow> TransportPtr \<Rightarrow> nat \<Rightarrow> bool \<Rightarrow> int \<Rightarrow> Contact \<Rightarrow> ManagedConnections
     \<Rightarrow> Abort + (ManagedConnections \<times> Event list)"
where
  "on_bootstrap cfg h transport external_address handler bootstrap_result chosen_contact s =
     (if bootstrap_result \<noteq> kSuccess
      then invoke_bootstrap handler (Some failed_to_bootstrap) chosen_contact s [Close transport]
      else
        invoke_bootstrap handler
          (if bootstrap_result \<noteq> kSuccess then Some failed_to_bootstrap else None)
          chosen_contact
          (if IsValid_id (id_contact (chosen_bootstrap_contact s))
           then s\<lparr>chosen_bootstrap_contact := chosen_contact\<rparr> else s)
          (if \<not> IsValid cfg (external_endpoint (h transport)) \<and> \<not> is_unspecified external_address
           then [SetBestGuessExternalEndpoint transport
                   \<lparr>address = external_address, port = port (local_endpoint (h transport))\<rparr>]
           else []))"

section \<open>Reserving an endpoint\<close>

text \<open>
  Modelled from the spec: \<open>GetAvailableEndpoint\<close>, whose body is in the header
  \<open>managed_connections.h\<close> and not in the source file. Section 4.2 of the specification gives
  its steps: (1) an existing pending for the peer answers with its transport's endpoints;
  (2) an existing connection answers through \<open>ExistingConnection\<close>, with its endpoints or with
  "already connected"; (3) if \<open>ShouldStartNewTransport\<close> holds a new transport is started
  asynchronously, and meanwhile (4, 5) an existing transport is picked, an idle one first and
  otherwise the one with the fewest connections. The steps call the source's functions;
  the result is the endpoint pair with the flag "started a new transport", or the fact that
  the peer is already connected, or that no transport could be picked.
\<close>

datatype GetAvailableEndpointResult =
    Endpoints EndpointPair bool
  | AlreadyConnected
  | NoTransportAvailable

text \<open>
  Modelled from the spec: steps 3 to 5 of \<open>GetAvailableEndpoint\<close>, the selection of a
  transport for a peer that has neither a pending nor a connection.
\<close>

definition SelectTransportForPeer ::
  "Parameters \<Rightarrow> heap \<Rightarrow> NodeId \<Rightarrow> EndpointPair \<Rightarrow> EndpointPair \<Rightarrow> ManagedConnections
     \<Rightarrow> Abort + (GetAvailableEndpointResult \<times> ManagedConnections \<times> Event list)"
where
  "SelectTransportForPeer cfg h peer_id peer_hint this_endpoint_pair s =
     (case SelectAnyTransport cfg h peer_id this_endpoint_pair s of
        Inl a \<Rightarrow> Inl a
      | Inr (selected, pair, s') \<Rightarrow>
          Inr (if selected then Endpoints pair (ShouldStartNewTransport cfg peer_hint s)
               else NoTransportAvailable,
               s',
               if ShouldStartNewTransport cfg peer_hint s then [StartNewTransportCall] else []))"

text \<open>Modelled from the spec: \<open>GetAvailableEndpoint\<close>, steps 1 and 2, then the selection.\<close>

definition GetAvailableEndpoint ::
  "Parameters \<Rightarrow> heap \<Rightarrow> NodeId \<Rightarrow> EndpointPair \<Rightarrow> ManagedConnections
     \<Rightarrow> Abort + (GetAvailableEndpointResult \<times> ManagedConnections \<times> Event list)"
where
  "GetAvailableEndpoint cfg h peer_id peer_hint s =
     (case ExistingConnectionAttempt cfg h peer_id
             \<lparr>local = Endpoint_default, external = Endpoint_default\<rparr> s of
        Inl a \<Rightarrow> Inl a
      | Inr (attempt, pair0) \<Rightarrow>
          (if attempt then Inr (Endpoints pair0 False, s, [])
           else
             (case ExistingConnection cfg h peer_id pair0 False s of
                Inl a \<Rightarrow> Inl a
              | Inr (existing, pair1, connection_exists, s1) \<Rightarrow>
                  (if existing
                   then (if connection_exists then Inr (AlreadyConnected, s1, [])
                         else Inr (Endpoints pair1 False, s1, []))
                   else SelectTransportForPeer cfg h peer_id peer_hint pair1 s1))))"

section \<open>Observations\<close>

text \<open>The calls of the completion handler made by the manager itself, among the events.\<close>

fun handler_calls :: "Event list \<Rightarrow> Event list" where
  "handler_calls [] = []"
| "handler_calls (Handler e # evs) = Handler e # handler_calls evs"
| "handler_calls (DetachedHandler e # evs) = DetachedHandler e # handler_calls evs"
| "handler_calls (ev # evs) = handler_calls evs"

text \<open>
  A connections entry for \<open>peer_id\<close> accepts the send: the peer is in the map and its
  transport's \<open>Send\<close> returns \<open>true\<close>.
\<close>

definition send_accepted :: "heap \<Rightarrow> NodeId \<Rightarrow> string \<Rightarrow> ManagedConnections \<Rightarrow> bool" where
  "send_accepted h peer_id message s =
     (case map_find peer_id (connections s) of
        None \<Rightarrow> False
      | Some itr \<Rightarrow> Send (h itr) peer_id message)"

section \<open>A node in the middle of its life\<close>

text \<open>
  A concrete node, used to run the operations on: transport \<open>1\<close> carries three normal
  connections (to peers \<open>5\<close>, \<open>6\<close> and \<open>7\<close>, of which \<open>7\<close> is the chosen bootstrap contact),
  transport \<open>2\<close> is idle and reserved for peer \<open>9\<close>, and every other transport is closed.
\<close>

definition example_connections :: "NodeId \<Rightarrow> Connection option" where
  "example_connections n =
     (if n = 5 then Some \<lparr>state = kUnvalidated, PeerEndpoint = \<lparr>address = 205, port = 5483\<rparr>\<rparr>
      else if n = 6 then Some \<lparr>state = kBootstrapping, PeerEndpoint = \<lparr>address = 206, port = 5483\<rparr>\<rparr>
      else if n = 7 then Some \<lparr>state = kPermanent, PeerEndpoint = \<lparr>address = 207, port = 5483\<rparr>\<rparr>
      else None)"

definition busy_transport :: Transport where
  "busy_transport =
     \<lparr>local_endpoint = \<lparr>address = 10, port = 5000\<rparr>,
      external_endpoint = \<lparr>address = 77, port = 6000\<rparr>,
      IsIdle = False, IsAvailable = True,
      GetConnection = example_connections,
      NormalConnectionsCount = 3,
      Send = (\<lambda>peer_id message. peer_id = 7)\<rparr>"

definition idle_transport :: Transport where
  "idle_transport =
     \<lparr>local_endpoint = \<lparr>address = 10, port = 5001\<rparr>,
      external_endpoint = Endpoint_default,
      IsIdle = True, IsAvailable = True,
      GetConnection = (\<lambda>peer_id. None),
      NormalConnectionsCount = 0,
      Send = (\<lambda>peer_id message. False)\<rparr>"

definition closed_transport :: Transport where
  "closed_transport =
     \<lparr>local_endpoint = Endpoint_default,
      external_endpoint = Endpoint_default,
      IsIdle = False, IsAvailable = False,
      GetConnection = (\<lambda>peer_id. None),
      NormalConnectionsCount = 0,
      Send = (\<lambda>peer_id message. False)\<rparr>"

definition example_heap :: heap where
  "example_heap t = (if t = 1 then busy_transport else if t = 2 then idle_transport else closed_transport)"

definition debug_build :: Parameters where
  "debug_build =
     \<lparr>max_transports = 4, kMaxConnections = 64,
      IsValid = (\<lambda>e. address e \<noteq> 0 \<and> port e \<noteq> 0),
      NDEBUG = False\<rparr>"

definition peer_7 :: Contact where
  "peer_7 =
     \<lparr>id_contact = 7,
      endpoint_pair = \<lparr>local = \<lparr>address = 20, port = 5483\<rparr>, external = \<lparr>address = 207, port = 5483\<rparr>\<rparr>,
      public_key = ''key of 7''\<rparr>"

definition example_node :: ManagedConnections where
  "example_node =
     \<lparr>this_node_id = 1,
      chosen_bootstrap_contact = peer_7,
      connections = [(5, 1), (6, 1), (7, 1)],
      pendings = [\<lparr>node_id = 9, pending_transport = 2, connecting = False\<rparr>],
      idle_transports = [2],
      listener = True,
      nat_type = kSymmetric\<rparr>"

text \<open>The node as its constructor leaves it, with the identifier given to \<open>Bootstrap\<close>.\<close>

definition fresh_node :: ManagedConnections where
  "fresh_node =
     \<lparr>this_node_id = 1,
      chosen_bootstrap_contact = Contact_default,
      connections = [],
      pendings = [],
      idle_transports = [],
      listener = True,
      nat_type = kUnknown\<rparr>"

section \<open>Properties\<close>

lemma static_cast_int_small: "n < 2 ^ 31 \<Longrightarrow> static_cast_int n = int n"
proof -
  assume n: "n < 2 ^ 31"
  then show ?thesis
    by (simp add: static_cast_int_def signed_of_nat signed_take_bit_int_eq_self)
qed

lemma Find_None_iff:
  "FindPendingTransportWithNodeId peer_id ps = None \<longleftrightarrow> peer_id \<notin> node_id ` set ps"
  by (induction ps) auto

lemma Find_Some_D:
  "FindPendingTransportWithNodeId peer_id ps = Some i \<Longrightarrow> i < length ps \<and> node_id (ps ! i) = peer_id"
  by (induction ps arbitrary: i) (auto split: if_splits)

lemma vector_erase_Cons_Suc: "vector_erase (Suc i) (x # xs) = x # vector_erase i xs"
  by (simp add: vector_erase_def)

lemma vector_erase_0: "vector_erase 0 (x # xs) = xs"
  by (simp add: vector_erase_def)

lemma filter_other_ids:
  "peer_id \<notin> node_id ` set ps \<Longrightarrow> filter (\<lambda>x. node_id x \<noteq> peer_id) ps = ps"
  by (induction ps) auto

lemma vector_erase_found:
  "distinct (map node_id ps) \<Longrightarrow> FindPendingTransportWithNodeId peer_id ps = Some i \<Longrightarrow>
     vector_erase i ps = filter (\<lambda>x. node_id x \<noteq> peer_id) ps"
proof (induction ps arbitrary: i)
  case Nil
  then show ?case by simp
next
  case (Cons a ps)
  show ?case
  proof (cases "node_id a = peer_id")
    case True
    with Cons.prems have "i = 0" and "peer_id \<notin> node_id ` set ps" by auto
    with True show ?thesis by (simp add: vector_erase_0 filter_other_ids)
  next
    case False
    with Cons.prems obtain j where j: "i = Suc j" "FindPendingTransportWithNodeId peer_id ps = Some j"
      by auto
    with Cons.IH [of j] Cons.prems False show ?thesis
      by (simp add: vector_erase_Cons_Suc)
  qed
qed

lemma pendings_RemovePending:
  "distinct (map node_id (pendings s)) \<Longrightarrow>
     pendings (RemovePending peer_id s) = filter (\<lambda>x. node_id x \<noteq> peer_id) (pendings s)"
  by (auto simp: RemovePending_def vector_erase_found Find_None_iff filter_other_ids
      split: option.splits)

lemma RemovePending_fields [simp]:
  "connections (RemovePending peer_id s) = connections s"
  "idle_transports (RemovePending peer_id s) = idle_transports s"
  "chosen_bootstrap_contact (RemovePending peer_id s) = chosen_bootstrap_contact s"
  "this_node_id (RemovePending peer_id s) = this_node_id s"
  "listener (RemovePending peer_id s) = listener s"
  "nat_type (RemovePending peer_id s) = nat_type s"
  by (simp_all add: RemovePending_def split: option.splits)

lemma map_of_insort_key:
  "map_of m k = None \<Longrightarrow> map_of (insort_key fst (k, v) m) = (map_of m)(k \<mapsto> v)"
proof (induction m)
  case Nil
  then show ?case by simp
next
  case (Cons a m)
  obtain a1 a2 where a: "a = (a1, a2)" by (cases a)
  from Cons.prems a have ne: "k \<noteq> a1" and none: "map_of m k = None"
    by (auto split: if_splits)
  show ?case
    using Cons.IH [OF none] ne a by (auto simp: fun_upd_twist)
qed

lemma map_find_insert:
  "map_find k m = None \<Longrightarrow> map_insert (k, v) m = (m', b) \<Longrightarrow>
     b \<and> map_find k' m' = (if k' = k then Some v else map_find k' m) \<and> length m' = Suc (length m)"
  by (auto simp: map_find_def map_insert_def map_of_insort_key)

lemma map_find_insert_present:
  "map_find k m = Some t \<Longrightarrow> map_insert (k, v) m = (m, False)"
  by (simp add: map_insert_def)

lemma map_find_erase:
  "map_find k' (map_erase k m) = (if k' = k then None else map_find k' m)"
  by (induction m) (auto simp: map_find_def map_erase_def)

lemma set_set_insert [simp]: "set (set_insert t xs) = insert t (set xs)"
  by (auto simp: set_insert_def set_insort_key)

lemma set_set_erase [simp]: "set (set_erase t xs) = set xs - {t}"
  by (auto simp: set_erase_def)

lemmas example_defs =
  example_connections_def busy_transport_def idle_transport_def closed_transport_def
  example_heap_def debug_build_def peer_7_def example_node_def Endpoint_default_def

lemma UpdateIdleTransports_Inr:
  "NDEBUG cfg \<or> \<not> IsIdle (h transport) \<or> IsAvailable (h transport) \<Longrightarrow>
     UpdateIdleTransports cfg h transport s =
       Inr (s\<lparr>idle_transports :=
                (if IsIdle (h transport) then set_insert transport (idle_transports s)
                 else set_erase transport (idle_transports s))\<rparr>)"
  by (auto simp: UpdateIdleTransports_def)

lemma purge_unavailable_fields [simp]:
  "connections (purge_unavailable cfg h s) = connections s"
  "pendings (purge_unavailable cfg h s) = pendings s"
  "chosen_bootstrap_contact (purge_unavailable cfg h s) = chosen_bootstrap_contact s"
  "this_node_id (purge_unavailable cfg h s) = this_node_id s"
  "listener (purge_unavailable cfg h s) = listener s"
  "nat_type (purge_unavailable cfg h s) = nat_type s"
  "set (idle_transports (purge_unavailable cfg h s)) =
     {t \<in> set (idle_transports s). NDEBUG cfg \<or> IsAvailable (h t)}"
  by (auto simp: purge_unavailable_def)

lemma Find_append_new:
  "FindPendingTransportWithNodeId peer_id ps = None \<Longrightarrow>
     FindPendingTransportWithNodeId peer_id (ps @ [x]) =
       (if node_id x = peer_id then Some (length ps) else None)"
  by (induction ps) (auto split: if_splits)

lemma SelectIdleTransport_result:
  "SelectIdleTransport cfg h peer_id pair s = Inr (found, pair', s') \<Longrightarrow>
     (if found
      then \<exists>t. pendings s' = pendings s @ [PendingConnection_new peer_id t] \<and>
               pair' = \<lparr>local = local_endpoint (h t), external = external_endpoint (h t)\<rparr> \<and>
               IsAvailable (h t)
      else pendings s' = pendings s \<and> pair' = pair)"
proof (induction cfg h peer_id pair s rule: SelectIdleTransport.induct)
  case (1 cfg h peer_id this_endpoint_pair s)
  show ?case
  proof (cases "idle_transports s")
    case Nil
    with "1.prems" show ?thesis
      by (simp add: SelectIdleTransport.simps [of cfg h peer_id this_endpoint_pair s])
  next
    case (Cons t rest)
    show ?thesis
    proof (cases "IsAvailable (h t)")
      case True
      with Cons "1.prems" show ?thesis
        by (auto simp: SelectIdleTransport.simps [of cfg h peer_id this_endpoint_pair s]
            AddPending_def split: if_splits)
    next
      case False
      with Cons "1.prems" have
        "SelectIdleTransport cfg h peer_id this_endpoint_pair (s\<lparr>idle_transports := rest\<rparr>) =
           Inr (found, pair', s')"
        by (simp add: SelectIdleTransport.simps [of cfg h peer_id this_endpoint_pair s])
      from "1.IH" [OF Cons False this] show ?thesis by (cases found) simp_all
    qed
  qed
qed

lemma SelectAnyTransport_result:
  "SelectAnyTransport cfg h peer_id pair s = Inr (found, pair', s') \<Longrightarrow>
     (if found
      then \<exists>t. pendings s' = pendings s @ [PendingConnection_new peer_id t] \<and>
               pair' = \<lparr>local = local_endpoint (h t), external = external_endpoint (h t)\<rparr> \<and>
               (NDEBUG cfg \<or> IsAvailable (h t))
      else pendings s' = pendings s \<and> pair' = pair)"
proof -
  assume r: "SelectAnyTransport cfg h peer_id pair s = Inr (found, pair', s')"
  then obtain f1 p1 s1 where idle: "SelectIdleTransport cfg h peer_id pair s = Inr (f1, p1, s1)"
    by (auto simp: SelectAnyTransport_def split: sum.splits)
  note i = SelectIdleTransport_result [OF idle]
  show ?thesis
  proof (cases f1)
    case True
    with r idle i show ?thesis by (auto simp: SelectAnyTransport_def)
  next
    case False
    with r idle i show ?thesis
      by (auto simp: SelectAnyTransport_def AddPending_def split: option.splits if_splits)
  qed
qed

subsection \<open>One pending per peer\<close>

text \<open>
  The operations keep the pendings free of two entries for one peer: a pending is added only
  by \<open>GetAvailableEndpoint\<close>, after it found none for the peer.
\<close>

lemma distinct_vector_erase: "distinct (map f xs) \<Longrightarrow> distinct (map f (vector_erase i xs))"
proof -
  assume d: "distinct (map f xs)"
  have "map f xs = map f (take i xs) @ map f (drop i xs)"
    by (simp flip: map_append)
  with d have "distinct (map f (take i xs) @ map f (drop i xs))" by simp
  moreover have "set (drop (Suc i) xs) \<subseteq> set (drop i xs)"
    by (rule set_drop_subset_set_drop) simp
  moreover from d have "distinct (map f (drop (Suc i) xs))"
    by (simp add: distinct_drop flip: drop_map)
  ultimately show ?thesis
    by (auto simp: vector_erase_def)
qed

lemma RemovePending_distinct:
  "distinct (map node_id (pendings s)) \<Longrightarrow> distinct (map node_id (pendings (RemovePending peer_id s)))"
  by (auto simp: RemovePending_def distinct_vector_erase split: option.splits)

lemma OnConnectionAddedSlot_distinct:
  "distinct (map node_id (pendings s)) \<Longrightarrow>
   OnConnectionAddedSlot cfg h peer_id transport temporary s = Inr (s', dup) \<Longrightarrow>
     distinct (map node_id (pendings s'))"
  by (auto simp: OnConnectionAddedSlot_def UpdateIdleTransports_def RemovePending_distinct
      split: if_splits sum.splits prod.splits)

lemma OnConnectionLostSlot_distinct:
  "distinct (map node_id (pendings s)) \<Longrightarrow>
   OnConnectionLostSlot cfg h peer_id transport temporary s = Inr (s', evs) \<Longrightarrow>
     distinct (map node_id (pendings s'))"
proof -
  assume d: "distinct (map node_id (pendings s))"
    and r: "OnConnectionLostSlot cfg h peer_id transport temporary s = Inr (s', evs)"
  from r obtain s1 where u: "UpdateIdleTransports cfg h transport s = Inr s1"
    by (auto simp: OnConnectionLostSlot_def split: sum.splits)
  then have "pendings s1 = pendings s"
    by (auto simp: UpdateIdleTransports_def split: if_splits)
  with d have "distinct (map node_id (pendings (RemovePending peer_id s1)))"
    by (simp add: RemovePending_distinct)
  with r u d \<open>pendings s1 = pendings s\<close> show ?thesis
    by (auto simp: OnConnectionLostSlot_def split: if_splits option.splits)
qed

lemma map_node_id_connecting:
  "map node_id (ps[i := (ps ! i)\<lparr>connecting := c\<rparr>]) = map node_id ps"
  by (cases "i < length ps") (simp_all add: map_update list_update_same_conv list_update_beyond)

lemma DoAdd_distinct:
  "distinct (map node_id (pendings s)) \<Longrightarrow>
   DoAdd cfg h peer handler s = Inr (s', evs) \<Longrightarrow>
     distinct (map node_id (pendings s'))"
  by (auto simp: DoAdd_def invoke_def map_node_id_connecting distinct_vector_erase
      split: if_splits option.splits)

lemma distinct_reserved:
  "distinct (map node_id ps) \<Longrightarrow> FindPendingTransportWithNodeId peer_id ps = None \<Longrightarrow>
     distinct (map node_id (ps @ [PendingConnection_new peer_id t]))"
  by (auto simp: Find_None_iff PendingConnection_new_def)

lemma GetAvailableEndpoint_distinct:
  assumes d: "distinct (map node_id (pendings s))"
      and r: "GetAvailableEndpoint cfg h peer_id peer_hint s = Inr (res, s', evs)"
  shows "distinct (map node_id (pendings s'))"
proof (cases "FindPendingTransportWithNodeId peer_id (pendings s)")
  case (Some itr)
  with r have "s' = s"
    by (auto simp: GetAvailableEndpoint_def ExistingConnectionAttempt_def split: if_splits)
  with d show ?thesis by simp
next
  case None
  let ?pair0 = "\<lparr>local = Endpoint_default, external = Endpoint_default\<rparr>"
  from None r obtain existing pair1 ce s1 where
    ec: "ExistingConnection cfg h peer_id ?pair0 False s = Inr (existing, pair1, ce, s1)"
    by (auto simp: GetAvailableEndpoint_def ExistingConnectionAttempt_def split: sum.splits)
  from ec d None have d1: "distinct (map node_id (pendings s1))"
    by (auto simp: ExistingConnection_def AddPending_def Find_None_iff PendingConnection_new_def
        split: option.splits if_splits)
  show ?thesis
  proof (cases existing)
    case True
    with None r ec have "s' = s1"
      by (auto simp: GetAvailableEndpoint_def ExistingConnectionAttempt_def split: if_splits)
    with d1 show ?thesis by simp
  next
    case False
    with ec have same: "pendings s1 = pendings s"
      by (auto simp: ExistingConnection_def split: option.splits if_splits)
    from False None r ec obtain found p2 where
      any: "SelectAnyTransport cfg h peer_id pair1 s1 = Inr (found, p2, s')"
      by (auto simp: GetAvailableEndpoint_def ExistingConnectionAttempt_def
          SelectTransportForPeer_def split: sum.splits)
    from SelectAnyTransport_result [OF any] same d None show ?thesis
      by (cases found) (auto simp: Find_None_iff PendingConnection_new_def)
  qed
qed

subsection \<open>What a successful bootstrap does to the chosen contact\<close>

lemma on_bootstrap_success:
  "handler \<Longrightarrow>
     \<exists>evs. on_bootstrap cfg h transport external_address handler kSuccess chosen_contact s =
       Inr (s\<lparr>chosen_bootstrap_contact :=
                 (if IsValid_id (id_contact (chosen_bootstrap_contact s)) then chosen_contact
                  else chosen_bootstrap_contact s)\<rparr>, evs)"
  by (simp add: on_bootstrap_def invoke_bootstrap_def)

subsection \<open>Starting a new transport\<close>

text \<open>
  Claim C5. \<open>ShouldStartNewTransport(peer_hint)\<close> is true under symmetric NAT exactly when
  the number of connections is below \<open>max_transports * K_max\<close> and the hint's external
  endpoint is valid or else its local endpoint is invalid; under any other NAT type exactly
  when the number of connections is below \<open>max_transports\<close>. The number of connections fits
  the \<open>int\<close> it is cast to, and a transport can hold at least one connection.
\<close>

theorem C5_ShouldStartNewTransport:
  assumes size: "length (connections s) < 2 ^ 31"
      and kmax: "1 \<le> kMaxConnections cfg"
  shows "ShouldStartNewTransport cfg peer_hint s \<longleftrightarrow>
           (if nat_type s = kSymmetric
            then int (length (connections s)) < max_transports cfg * int (kMaxConnections cfg) \<and>
                 (IsValid cfg (external peer_hint) \<or> \<not> IsValid cfg (local peer_hint))
            else int (length (connections s)) < max_transports cfg)"
proof -
  have cast: "static_cast_int (length (connections s)) = int (length (connections s))"
    using size by (rule static_cast_int_small)
  have le: "int (length (connections s)) < max_transports cfg \<Longrightarrow>
            int (length (connections s)) < max_transports cfg * int (kMaxConnections cfg)"
  proof -
    assume lt: "int (length (connections s)) < max_transports cfg"
    then have "0 \<le> max_transports cfg" by linarith
    then have "max_transports cfg * 1 \<le> max_transports cfg * int (kMaxConnections cfg)"
      using kmax by (intro mult_left_mono) simp_all
    then have "max_transports cfg \<le> max_transports cfg * int (kMaxConnections cfg)"
      by (simp only: mult_1_right)
    with lt show ?thesis by linarith
  qed
  show ?thesis
    unfolding ShouldStartNewTransport_def cast using le by auto
qed

text \<open>
  Scenario S4 at the example node: symmetric NAT, \<open>max_transports = 4\<close>, \<open>K_max = 64\<close>, three
  connections and a hint with a valid external endpoint.
\<close>

theorem C5_ShouldStartNewTransport_witness:
  "length (connections example_node) < 2 ^ 31 \<and> 1 \<le> kMaxConnections debug_build \<and>
   ShouldStartNewTransport debug_build (endpoint_pair peer_7) example_node"
  using C5_ShouldStartNewTransport [of example_node debug_build "endpoint_pair peer_7"]
  by (simp add: example_defs)


subsection \<open>A connection was added\<close>

text \<open>
  Claim C3. For a non-temporary \<open>OnConnectionAdded(peer_id, transport)\<close> the pending of
  \<open>peer_id\<close> is removed and \<open>(peer_id, transport)\<close> is inserted into \<open>connections\<close>. If the
  peer had no entry, the insertion succeeds, \<open>transport\<close> leaves \<open>idle_transports\<close> and
  \<open>is_duplicate\<close> is false. If an earlier transport holds the peer, \<open>is_duplicate\<close> is true,
  the map is unchanged and the idle status of \<open>transport\<close> is refreshed (it is in the set iff
  it is idle). For a temporary connection only the idle status is refreshed. A debug build
  moreover drops the unavailable transports from \<open>idle_transports\<close> at the end of every call,
  and the calls that refresh the idle status return when its assertion holds, which is always
  so in a release build. Pendings hold at most one entry per peer.
\<close>

theorem C3_OnConnectionAddedSlot:
  assumes inv: "distinct (map node_id (pendings s))"
  shows
    "(\<not> temporary \<and> map_find peer_id (connections s) = None \<longrightarrow>
        (\<exists>s'. OnConnectionAddedSlot cfg h peer_id transport temporary s = Inr (s', False) \<and>
              pendings s' = filter (\<lambda>p. node_id p \<noteq> peer_id) (pendings s) \<and>
              (\<forall>k. map_find k (connections s') =
                     (if k = peer_id then Some transport else map_find k (connections s))) \<and>
              length (connections s') = Suc (length (connections s)) \<and>
              set (idle_transports s') =
                {t \<in> set (idle_transports s) - {transport}. NDEBUG cfg \<or> IsAvailable (h t)} \<and>
              chosen_bootstrap_contact s' = chosen_bootstrap_contact s)) \<and>
     (\<not> temporary \<and> map_find peer_id (connections s) \<noteq> None \<and>
      (NDEBUG cfg \<or> \<not> IsIdle (h transport) \<or> IsAvailable (h transport)) \<longrightarrow>
        (\<exists>s'. OnConnectionAddedSlot cfg h peer_id transport temporary s = Inr (s', True) \<and>
              pendings s' = filter (\<lambda>p. node_id p \<noteq> peer_id) (pendings s) \<and>
              connections s' = connections s \<and>
              set (idle_transports s') =
                {t \<in> (if IsIdle (h transport) then insert transport (set (idle_transports s))
                       else set (idle_transports s) - {transport}).
                   NDEBUG cfg \<or> IsAvailable (h t)} \<and>
              chosen_bootstrap_contact s' = chosen_bootstrap_contact s)) \<and>
     (temporary \<and> (NDEBUG cfg \<or> \<not> IsIdle (h transport) \<or> IsAvailable (h transport)) \<longrightarrow>
        (\<exists>s'. OnConnectionAddedSlot cfg h peer_id transport temporary s = Inr (s', False) \<and>
              pendings s' = pendings s \<and>
              connections s' = connections s \<and>
              set (idle_transports s') =
                {t \<in> (if IsIdle (h transport) then insert transport (set (idle_transports s))
                       else set (idle_transports s) - {transport}).
                   NDEBUG cfg \<or> IsAvailable (h t)} \<and>
              chosen_bootstrap_contact s' = chosen_bootstrap_contact s))"
proof (intro conjI impI)
  assume a: "\<not> temporary \<and> map_find peer_id (connections s) = None"
  obtain m' b where ins: "map_insert (peer_id, transport) (connections s) = (m', b)"
    by (cases "map_insert (peer_id, transport) (connections s)")
  from a ins have b: "b" and look: "\<And>k. map_find k m' =
      (if k = peer_id then Some transport else map_find k (connections s))"
    and len: "length m' = Suc (length (connections s))"
    using map_find_insert [of peer_id "connections s" transport m' b] by auto
  show "\<exists>s'. OnConnectionAddedSlot cfg h peer_id transport temporary s = Inr (s', False) \<and>
              pendings s' = filter (\<lambda>p. node_id p \<noteq> peer_id) (pendings s) \<and>
              (\<forall>k. map_find k (connections s') =
                     (if k = peer_id then Some transport else map_find k (connections s))) \<and>
              length (connections s') = Suc (length (connections s)) \<and>
              set (idle_transports s') =
                {t \<in> set (idle_transports s) - {transport}. NDEBUG cfg \<or> IsAvailable (h t)} \<and>
              chosen_bootstrap_contact s' = chosen_bootstrap_contact s"
    using a ins b look len inv
    by (simp add: OnConnectionAddedSlot_def pendings_RemovePending)
next
  assume a: "\<not> temporary \<and> map_find peer_id (connections s) \<noteq> None \<and>
      (NDEBUG cfg \<or> \<not> IsIdle (h transport) \<or> IsAvailable (h transport))"
  then obtain t0 where t0: "map_find peer_id (connections s) = Some t0" by auto
  have ins: "map_insert (peer_id, transport) (connections s) = (connections s, False)"
    using t0 by (rule map_find_insert_present)
  show "\<exists>s'. OnConnectionAddedSlot cfg h peer_id transport temporary s = Inr (s', True) \<and>
              pendings s' = filter (\<lambda>p. node_id p \<noteq> peer_id) (pendings s) \<and>
              connections s' = connections s \<and>
              set (idle_transports s') =
                {t \<in> (if IsIdle (h transport) then insert transport (set (idle_transports s))
                       else set (idle_transports s) - {transport}).
                   NDEBUG cfg \<or> IsAvailable (h t)} \<and>
              chosen_bootstrap_contact s' = chosen_bootstrap_contact s"
    using a ins inv
    by (simp add: OnConnectionAddedSlot_def UpdateIdleTransports_Inr pendings_RemovePending)
next
  assume a: "temporary \<and> (NDEBUG cfg \<or> \<not> IsIdle (h transport) \<or> IsAvailable (h transport))"
  show "\<exists>s'. OnConnectionAddedSlot cfg h peer_id transport temporary s = Inr (s', False) \<and>
              pendings s' = pendings s \<and>
              connections s' = connections s \<and>
              set (idle_transports s') =
                {t \<in> (if IsIdle (h transport) then insert transport (set (idle_transports s))
                       else set (idle_transports s) - {transport}).
                   NDEBUG cfg \<or> IsAvailable (h t)} \<and>
              chosen_bootstrap_contact s' = chosen_bootstrap_contact s"
    using a by (simp add: OnConnectionAddedSlot_def UpdateIdleTransports_Inr)
qed


text \<open>
  At the example node: peer \<open>9\<close> connects on the idle transport \<open>2\<close> reserved for it; peer \<open>5\<close>,
  already connected on transport \<open>1\<close>, is reported again on transport \<open>2\<close>; a temporary
  connection comes up on transport \<open>2\<close>.
\<close>

theorem C3_OnConnectionAddedSlot_witness:
  "distinct (map node_id (pendings example_node)) \<and>
   OnConnectionAddedSlot debug_build example_heap 9 2 False example_node =
     Inr (example_node\<lparr>connections := [(5, 1), (6, 1), (7, 1), (9, 2)],
                       pendings := [], idle_transports := []\<rparr>, False) \<and>
   OnConnectionAddedSlot debug_build example_heap 5 2 False example_node =
     Inr (example_node, True) \<and>
   OnConnectionAddedSlot debug_build example_heap 8 2 True example_node =
     Inr (example_node, False)"
  using C3_OnConnectionAddedSlot [of example_node False 9 debug_build example_heap 2]
        C3_OnConnectionAddedSlot [of example_node False 5 debug_build example_heap 2]
        C3_OnConnectionAddedSlot [of example_node True 8 debug_build example_heap 2]
  apply (simp add: example_defs map_find_def)
  apply (simp add: OnConnectionAddedSlot_def RemovePending_def vector_erase_def map_insert_def
      map_find_def UpdateIdleTransports_def purge_unavailable_def set_insert_def set_erase_def example_defs)
  done

subsection \<open>A connection was lost\<close>

text \<open>
  Claim C4. Every non-temporary \<open>OnConnectionLost(peer_id, transport)\<close> that returns removes
  the pending of \<open>peer_id\<close>, whether or not the peer has an entry in \<open>connections\<close>. If
  \<open>connections[peer_id]\<close> is \<open>transport\<close> the entry is erased, \<open>chosen_bootstrap_contact\<close> is
  cleared when its id is \<open>peer_id\<close>, and the listener, which is held by a weak reference, is
  notified with \<open>ConnectionLost(peer_id)\<close> exactly once. If the peer has no entry, the map
  and the chosen contact stay as they are and nobody is notified. If the entry points to
  another transport, a debug build stops at its assertion and a release build goes on as if
  the entry were \<open>transport\<close>. A temporary loss refreshes the idle status of \<open>transport\<close> and
  changes nothing else. The idle status is refreshed first in every case; the call gets past
  that refresh when its assertion holds, which is always so in a release build. Pendings
  hold at most one entry per peer.
\<close>

theorem C4_OnConnectionLostSlot:
  assumes inv: "distinct (map node_id (pendings s))"
      and idle_assertion: "NDEBUG cfg \<or> \<not> IsIdle (h transport) \<or> IsAvailable (h transport)"
  shows
    "(\<not> temporary \<and> map_find peer_id (connections s) = Some transport \<longrightarrow>
        (\<exists>s'. OnConnectionLostSlot cfg h peer_id transport temporary s =
                Inr (s', if listener s then [ConnectionLost peer_id] else []) \<and>
              pendings s' = filter (\<lambda>p. node_id p \<noteq> peer_id) (pendings s) \<and>
              (\<forall>k. map_find k (connections s') =
                     (if k = peer_id then None else map_find k (connections s))) \<and>
              chosen_bootstrap_contact s' =
                (if id_contact (chosen_bootstrap_contact s) = peer_id then Contact_default
                 else chosen_bootstrap_contact s) \<and>
              set (idle_transports s') =
                (if IsIdle (h transport) then insert transport (set (idle_transports s))
                 else set (idle_transports s) - {transport}) \<and>
              this_node_id s' = this_node_id s \<and> listener s' = listener s \<and>
              nat_type s' = nat_type s)) \<and>
     (\<not> temporary \<and> map_find peer_id (connections s) = None \<longrightarrow>
        (\<exists>s'. OnConnectionLostSlot cfg h peer_id transport temporary s = Inr (s', []) \<and>
              pendings s' = filter (\<lambda>p. node_id p \<noteq> peer_id) (pendings s) \<and>
              s' = s\<lparr>pendings := pendings s', idle_transports := idle_transports s'\<rparr> \<and>
              set (idle_transports s') =
                (if IsIdle (h transport) then insert transport (set (idle_transports s))
                 else set (idle_transports s) - {transport}))) \<and>
     (\<forall>other. \<not> temporary \<and> map_find peer_id (connections s) = Some other \<and>
              other \<noteq> transport \<longrightarrow>
        (if NDEBUG cfg
         then (\<exists>s'. OnConnectionLostSlot cfg h peer_id transport temporary s =
                      Inr (s', if listener s then [ConnectionLost peer_id] else []) \<and>
                    pendings s' = filter (\<lambda>p. node_id p \<noteq> peer_id) (pendings s) \<and>
                    (\<forall>k. map_find k (connections s') =
                           (if k = peer_id then None else map_find k (connections s))) \<and>
                    chosen_bootstrap_contact s' =
                      (if id_contact (chosen_bootstrap_contact s) = peer_id then Contact_default
                       else chosen_bootstrap_contact s) \<and>
                    set (idle_transports s') =
                      (if IsIdle (h transport) then insert transport (set (idle_transports s))
                       else set (idle_transports s) - {transport}))
         else OnConnectionLostSlot cfg h peer_id transport temporary s = Inl AssertionFailed)) \<and>
     (temporary \<longrightarrow>
        (\<exists>s'. OnConnectionLostSlot cfg h peer_id transport temporary s = Inr (s', []) \<and>
              s' = s\<lparr>idle_transports := idle_transports s'\<rparr> \<and>
              set (idle_transports s') =
                (if IsIdle (h transport) then insert transport (set (idle_transports s))
                 else set (idle_transports s) - {transport})))"
proof -
  note run = OnConnectionLostSlot_def
    UpdateIdleTransports_Inr [where h = h and transport = transport and cfg = cfg, OF idle_assertion]
    pendings_RemovePending map_find_erase eq_commute [of peer_id]
  have found: "\<And>t. \<not> temporary \<and> map_find peer_id (connections s) = Some t \<Longrightarrow>
      NDEBUG cfg \<or> t = transport \<Longrightarrow>
      \<exists>s'. OnConnectionLostSlot cfg h peer_id transport temporary s =
                Inr (s', if listener s then [ConnectionLost peer_id] else []) \<and>
              pendings s' = filter (\<lambda>p. node_id p \<noteq> peer_id) (pendings s) \<and>
              (\<forall>k. map_find k (connections s') =
                     (if k = peer_id then None else map_find k (connections s))) \<and>
              chosen_bootstrap_contact s' =
                (if id_contact (chosen_bootstrap_contact s) = peer_id then Contact_default
                 else chosen_bootstrap_contact s) \<and>
              set (idle_transports s') =
                (if IsIdle (h transport) then insert transport (set (idle_transports s))
                 else set (idle_transports s) - {transport}) \<and>
              this_node_id s' = this_node_id s \<and> listener s' = listener s \<and>
              nat_type s' = nat_type s"
    using inv by (auto simp: run)
  have absent: "\<not> temporary \<and> map_find peer_id (connections s) = None \<longrightarrow>
        (\<exists>s'. OnConnectionLostSlot cfg h peer_id transport temporary s = Inr (s', []) \<and>
              pendings s' = filter (\<lambda>p. node_id p \<noteq> peer_id) (pendings s) \<and>
              s' = s\<lparr>pendings := pendings s', idle_transports := idle_transports s'\<rparr> \<and>
              set (idle_transports s') =
                (if IsIdle (h transport) then insert transport (set (idle_transports s))
                 else set (idle_transports s) - {transport}))"
    using inv by (simp add: run)
  have elsewhere: "\<And>other. \<not> temporary \<and> map_find peer_id (connections s) = Some other \<and>
        other \<noteq> transport \<Longrightarrow> \<not> NDEBUG cfg \<Longrightarrow>
        OnConnectionLostSlot cfg h peer_id transport temporary s = Inl AssertionFailed"
    by (simp add: run)
  have temp: "temporary \<longrightarrow>
        (\<exists>s'. OnConnectionLostSlot cfg h peer_id transport temporary s = Inr (s', []) \<and>
              s' = s\<lparr>idle_transports := idle_transports s'\<rparr> \<and>
              set (idle_transports s') =
                (if IsIdle (h transport) then insert transport (set (idle_transports s))
                 else set (idle_transports s) - {transport}))"
    by (simp add: run)
  show ?thesis
  proof (intro conjI allI impI)
    assume "\<not> temporary \<and> map_find peer_id (connections s) = Some transport"
    from found [OF this] show "\<exists>s'. OnConnectionLostSlot cfg h peer_id transport temporary s =
                Inr (s', if listener s then [ConnectionLost peer_id] else []) \<and>
              pendings s' = filter (\<lambda>p. node_id p \<noteq> peer_id) (pendings s) \<and>
              (\<forall>k. map_find k (connections s') =
                     (if k = peer_id then None else map_find k (connections s))) \<and>
              chosen_bootstrap_contact s' =
                (if id_contact (chosen_bootstrap_contact s) = peer_id then Contact_default
                 else chosen_bootstrap_contact s) \<and>
              set (idle_transports s') =
                (if IsIdle (h transport) then insert transport (set (idle_transports s))
                 else set (idle_transports s) - {transport}) \<and>
              this_node_id s' = this_node_id s \<and> listener s' = listener s \<and>
              nat_type s' = nat_type s"
      by simp
  next
    assume "\<not> temporary \<and> map_find peer_id (connections s) = None"
    with absent show "\<exists>s'. OnConnectionLostSlot cfg h peer_id transport temporary s = Inr (s', []) \<and>
              pendings s' = filter (\<lambda>p. node_id p \<noteq> peer_id) (pendings s) \<and>
              s' = s\<lparr>pendings := pendings s', idle_transports := idle_transports s'\<rparr> \<and>
              set (idle_transports s') =
                (if IsIdle (h transport) then insert transport (set (idle_transports s))
                 else set (idle_transports s) - {transport})"
      by simp
  next
    fix other
    assume a: "\<not> temporary \<and> map_find peer_id (connections s) = Some other \<and>
              other \<noteq> transport"
    show "if NDEBUG cfg
         then (\<exists>s'. OnConnectionLostSlot cfg h peer_id transport temporary s =
                      Inr (s', if listener s then [ConnectionLost peer_id] else []) \<and>
                    pendings s' = filter (\<lambda>p. node_id p \<noteq> peer_id) (pendings s) \<and>
                    (\<forall>k. map_find k (connections s') =
                           (if k = peer_id then None else map_find k (connections s))) \<and>
                    chosen_bootstrap_contact s' =
                      (if id_contact (chosen_bootstrap_contact s) = peer_id then Contact_default
                       else chosen_bootstrap_contact s) \<and>
                    set (idle_transports s') =
                      (if IsIdle (h transport) then insert transport (set (idle_transports s))
                       else set (idle_transports s) - {transport}))
         else OnConnectionLostSlot cfg h peer_id transport temporary s = Inl AssertionFailed"
    proof (cases "NDEBUG cfg")
      case True
      with a have "\<not> temporary \<and> map_find peer_id (connections s) = Some other"
        and "NDEBUG cfg \<or> other = transport" by simp_all
      from found [OF this] True show ?thesis by auto
    next
      case False
      with elsewhere [OF a] show ?thesis by simp
    qed
  next
    assume temporary
    with temp show "\<exists>s'. OnConnectionLostSlot cfg h peer_id transport temporary s = Inr (s', []) \<and>
              s' = s\<lparr>idle_transports := idle_transports s'\<rparr> \<and>
              set (idle_transports s') =
                (if IsIdle (h transport) then insert transport (set (idle_transports s))
                 else set (idle_transports s) - {transport})"
      by simp
  qed
qed

text \<open>
  At the example node. Scenario S5: the chosen bootstrap contact \<open>7\<close>, which also holds a
  pending, is lost on transport \<open>1\<close>. Peer \<open>9\<close>, which has a pending and no connection, is
  lost on transport \<open>2\<close>. Peer \<open>5\<close>, connected on transport \<open>1\<close>, is reported lost by
  transport \<open>2\<close>, in a debug build and in a release build. A temporary connection is lost on
  transport \<open>2\<close>.
\<close>

theorem C4_OnConnectionLostSlot_witness:
  "distinct (map node_id
      (pendings (example_node\<lparr>pendings :=
         [\<lparr>node_id = 9, pending_transport = 2, connecting = False\<rparr>,
          \<lparr>node_id = 7, pending_transport = 1, connecting = False\<rparr>]\<rparr>))) \<and>
   OnConnectionLostSlot debug_build example_heap 7 1 False
       (example_node\<lparr>pendings :=
         [\<lparr>node_id = 9, pending_transport = 2, connecting = False\<rparr>,
          \<lparr>node_id = 7, pending_transport = 1, connecting = False\<rparr>]\<rparr>) =
     Inr (example_node\<lparr>connections := [(5, 1), (6, 1)],
                       chosen_bootstrap_contact := Contact_default\<rparr>, [ConnectionLost 7]) \<and>
   OnConnectionLostSlot debug_build example_heap 9 2 False example_node =
     Inr (example_node\<lparr>pendings := []\<rparr>, []) \<and>
   OnConnectionLostSlot debug_build example_heap 5 2 False example_node = Inl AssertionFailed \<and>
   OnConnectionLostSlot (debug_build\<lparr>NDEBUG := True\<rparr>) example_heap 5 2 False example_node =
     Inr (example_node\<lparr>connections := [(6, 1), (7, 1)]\<rparr>, [ConnectionLost 5]) \<and>
   OnConnectionLostSlot debug_build example_heap 8 2 True example_node = Inr (example_node, [])"
  using C4_OnConnectionLostSlot
          [of "example_node\<lparr>pendings :=
                 [\<lparr>node_id = 9, pending_transport = 2, connecting = False\<rparr>,
                  \<lparr>node_id = 7, pending_transport = 1, connecting = False\<rparr>]\<rparr>"
              debug_build example_heap 1 False 7]
        C4_OnConnectionLostSlot [of example_node debug_build example_heap 2 False 9]
        C4_OnConnectionLostSlot [of example_node debug_build example_heap 2 False 5]
        C4_OnConnectionLostSlot
          [of example_node "debug_build\<lparr>NDEBUG := True\<rparr>" example_heap 2 False 5]
        C4_OnConnectionLostSlot [of example_node debug_build example_heap 2 True 8]
  apply (simp add: example_defs map_find_def)
  apply (simp add: OnConnectionLostSlot_def RemovePending_def vector_erase_def map_erase_def
      map_find_def UpdateIdleTransports_def set_insert_def set_erase_def example_defs)
  done

subsection \<open>Adding a peer\<close>

text \<open>
  Claim C7. \<open>Add(peer)\<close> with no pending for \<open>peer.id\<close> hands \<open>already_connected\<close> to the
  handler when \<open>connections[peer.id]\<close> exists and \<open>operation_not_supported\<close> otherwise;
  \<open>Add(peer)\<close> whose pending already has \<open>connecting\<close> set hands it
  \<open>connection_already_in_progress\<close>; the pending and the rest of the directory stay as they
  are. The handler is a callable one, and this node's own identifier, which \<open>DoAdd\<close> rejects
  first, is neither a key of \<open>connections\<close> nor the peer of a pending.
\<close>

theorem C7_DoAdd_errors:
  assumes handler: "handler"
      and self: "id_contact peer = this_node_id s \<Longrightarrow>
                   map_find (this_node_id s) (connections s) = None \<and>
                   FindPendingTransportWithNodeId (this_node_id s) (pendings s) = None"
  shows
    "(FindPendingTransportWithNodeId (id_contact peer) (pendings s) = None \<longrightarrow>
        DoAdd cfg h peer handler s =
          Inr (s, [Handler (Some (if map_find (id_contact peer) (connections s) \<noteq> None
                                  then already_connected else operation_not_supported))])) \<and>
     (\<forall>itr. FindPendingTransportWithNodeId (id_contact peer) (pendings s) = Some itr \<and>
            connecting (pendings s ! itr) \<longrightarrow>
        DoAdd cfg h peer handler s = Inr (s, [Handler (Some connection_already_in_progress)]))"
  using handler self by (auto simp: DoAdd_def invoke_def)

text \<open>
  At the example node: \<open>Add\<close> of the connected peer \<open>5\<close>, of the unknown peer \<open>8\<close>, and of peer
  \<open>9\<close> a second time while the first attempt is connecting (scenario S3).
\<close>

theorem C7_DoAdd_errors_witness:
  "DoAdd debug_build example_heap (peer_7\<lparr>id_contact := 5\<rparr>) True example_node =
     Inr (example_node, [Handler (Some already_connected)]) \<and>
   DoAdd debug_build example_heap (peer_7\<lparr>id_contact := 8\<rparr>) True example_node =
     Inr (example_node, [Handler (Some operation_not_supported)]) \<and>
   DoAdd debug_build example_heap (peer_7\<lparr>id_contact := 9\<rparr>) True
       (example_node\<lparr>pendings := [\<lparr>node_id = 9, pending_transport = 2, connecting = True\<rparr>]\<rparr>) =
     Inr (example_node\<lparr>pendings := [\<lparr>node_id = 9, pending_transport = 2, connecting = True\<rparr>]\<rparr>,
          [Handler (Some connection_already_in_progress)])"
  using C7_DoAdd_errors [of True "peer_7\<lparr>id_contact := 5\<rparr>" example_node debug_build example_heap]
        C7_DoAdd_errors [of True "peer_7\<lparr>id_contact := 8\<rparr>" example_node debug_build example_heap]
        C7_DoAdd_errors [of True "peer_7\<lparr>id_contact := 9\<rparr>"
          "example_node\<lparr>pendings := [\<lparr>node_id = 9, pending_transport = 2, connecting = True\<rparr>]\<rparr>"
          debug_build example_heap]
  by (simp add: example_defs map_find_def)

text \<open>
  Claim C6. In \<open>Add(peer)\<close>, when the pending of \<open>peer.id\<close> exists and its transport already
  has a connection to \<open>peer.id\<close>: if that connection is \<open>Bootstrapping\<close>, or is \<open>Permanent\<close>
  and \<open>peer.id\<close> is the id of the chosen bootstrap contact, the handler gets success at once
  (and the pending stays, marked as connecting); in any other state the pending is erased and
  the handler gets \<open>already_connected\<close>. This is the step of \<open>DoAdd\<close> reached by a callable
  handler for a peer other than this node whose pending is not yet connecting; a debug build
  asserts there that the default endpoint is not a valid one.
\<close>

theorem C6_DoAdd_existing_connection:
  assumes handler: "handler"
      and not_self: "id_contact peer \<noteq> this_node_id s"
      and pending: "FindPendingTransportWithNodeId (id_contact peer) (pendings s) = Some itr"
      and not_connecting: "\<not> connecting (pendings s ! itr)"
      and connection:
        "GetConnection (h (pending_transport (pendings s ! itr))) (id_contact peer) = Some connection"
      and placeholder: "NDEBUG cfg \<or> \<not> IsValid cfg Endpoint_default"
  shows
    "(state connection = kBootstrapping \<or>
      (state connection = kPermanent \<and> id_contact peer = id_contact (chosen_bootstrap_contact s)) \<longrightarrow>
        DoAdd cfg h peer handler s =
          Inr (s\<lparr>pendings := (pendings s)[itr := (pendings s ! itr)\<lparr>connecting := True\<rparr>]\<rparr>,
               [Handler None])) \<and>
     (\<not> (state connection = kBootstrapping \<or>
         (state connection = kPermanent \<and> id_contact peer = id_contact (chosen_bootstrap_contact s))) \<longrightarrow>
        DoAdd cfg h peer handler s =
          Inr (s\<lparr>pendings := vector_erase itr (pendings s)\<rparr>, [Handler (Some already_connected)]))"
proof -
  have erase: "vector_erase itr ((pendings s)[itr := x]) = vector_erase itr (pendings s)" for x
    by (simp add: vector_erase_def)
  show ?thesis
    using assms by (auto simp: DoAdd_def invoke_def erase)
qed

text \<open>
  At the example node, with the pending bound to transport \<open>1\<close>: peer \<open>6\<close> is bootstrapping,
  peer \<open>7\<close> is permanent and the chosen bootstrap contact, peer \<open>5\<close> is unvalidated.
\<close>

theorem C6_DoAdd_existing_connection_witness:
  "DoAdd debug_build example_heap (peer_7\<lparr>id_contact := 6\<rparr>) True
       (example_node\<lparr>pendings := [\<lparr>node_id = 6, pending_transport = 1, connecting = False\<rparr>]\<rparr>) =
     Inr (example_node\<lparr>pendings := [\<lparr>node_id = 6, pending_transport = 1, connecting = True\<rparr>]\<rparr>,
          [Handler None]) \<and>
   DoAdd debug_build example_heap peer_7
       (True)
       (example_node\<lparr>pendings := [\<lparr>node_id = 7, pending_transport = 1, connecting = False\<rparr>]\<rparr>) =
     Inr (example_node\<lparr>pendings := [\<lparr>node_id = 7, pending_transport = 1, connecting = True\<rparr>]\<rparr>,
          [Handler None]) \<and>
   DoAdd debug_build example_heap (peer_7\<lparr>id_contact := 5\<rparr>) True
       (example_node\<lparr>pendings := [\<lparr>node_id = 5, pending_transport = 1, connecting = False\<rparr>]\<rparr>) =
     Inr (example_node\<lparr>pendings := []\<rparr>, [Handler (Some already_connected)])"
  using C6_DoAdd_existing_connection [of True "peer_7\<lparr>id_contact := 6\<rparr>"
          "example_node\<lparr>pendings := [\<lparr>node_id = 6, pending_transport = 1, connecting = False\<rparr>]\<rparr>"
          0 example_heap "\<lparr>state = kBootstrapping, PeerEndpoint = \<lparr>address = 206, port = 5483\<rparr>\<rparr>"
          debug_build]
        C6_DoAdd_existing_connection [of True peer_7
          "example_node\<lparr>pendings := [\<lparr>node_id = 7, pending_transport = 1, connecting = False\<rparr>]\<rparr>"
          0 example_heap "\<lparr>state = kPermanent, PeerEndpoint = \<lparr>address = 207, port = 5483\<rparr>\<rparr>"
          debug_build]
        C6_DoAdd_existing_connection [of True "peer_7\<lparr>id_contact := 5\<rparr>"
          "example_node\<lparr>pendings := [\<lparr>node_id = 5, pending_transport = 1, connecting = False\<rparr>]\<rparr>"
          0 example_heap "\<lparr>state = kUnvalidated, PeerEndpoint = \<lparr>address = 205, port = 5483\<rparr>\<rparr>"
          debug_build]
  by (simp add: example_defs vector_erase_def)

subsection \<open>Sending\<close>

text \<open>
  Claim C8. \<open>Send(peer_id, bytes, handler)\<close> with this node's own id hands
  \<open>operation_not_supported\<close> to the handler. Otherwise, if no connections entry for
  \<open>peer_id\<close> accepts the send, the handler gets \<open>not_connected\<close>, on a detached thread exactly
  when both \<open>connections\<close> and \<open>idle_transports\<close> are empty and synchronously otherwise. A
  send that the transport accepts makes the manager invoke no handler. The directory is
  unchanged in every case. The handler is a callable one (\<open>DoSend\<close> skips an empty one).
\<close>

theorem C8_DoSend:
  assumes handler: "handler"
  shows
    "(peer_id = this_node_id s \<longrightarrow>
        DoSend h peer_id message handler s = Inr (s, [Handler (Some operation_not_supported)])) \<and>
     (peer_id \<noteq> this_node_id s \<and> \<not> send_accepted h peer_id message s \<longrightarrow>
        (\<exists>evs. DoSend h peer_id message handler s = Inr (s, evs) \<and>
               handler_calls evs =
                 [if connections s = [] \<and> idle_transports s = []
                  then DetachedHandler (Some not_connected)
                  else Handler (Some not_connected)])) \<and>
     (peer_id \<noteq> this_node_id s \<and> send_accepted h peer_id message s \<longrightarrow>
        (\<exists>evs. DoSend h peer_id message handler s = Inr (s, evs) \<and> handler_calls evs = []))"
  using handler
  by (auto simp: DoSend_def invoke_def send_accepted_def split: option.splits)

text \<open>
  At the example node: a send to this node itself, to peer \<open>5\<close> whose transport refuses it, to
  peer \<open>5\<close> from a node that has not bootstrapped, and to peer \<open>7\<close> whose transport accepts it.
\<close>

theorem C8_DoSend_witness:
  "DoSend example_heap 1 ''hello'' True example_node =
     Inr (example_node, [Handler (Some operation_not_supported)]) \<and>
   DoSend example_heap 5 ''hello'' True example_node =
     Inr (example_node, [SendCall 1 5 ''hello'', Handler (Some not_connected)]) \<and>
   DoSend example_heap 5 ''hello'' True fresh_node =
     Inr (fresh_node, [DetachedHandler (Some not_connected)]) \<and>
   DoSend example_heap 7 ''hello'' True example_node =
     Inr (example_node, [SendCall 1 7 ''hello''])"
  using C8_DoSend [of True 1 example_node example_heap "''hello''"]
        C8_DoSend [of True 5 example_node example_heap "''hello''"]
        C8_DoSend [of True 5 fresh_node example_heap "''hello''"]
        C8_DoSend [of True 7 example_node example_heap "''hello''"]
  apply (simp add: example_defs fresh_node_def send_accepted_def map_find_def)
  apply (simp add: DoSend_def invoke_def map_find_def example_defs fresh_node_def)
  done

subsection \<open>The end of a bootstrap\<close>

text \<open>
  Claim C1 says that a successful bootstrap leaves a valid \<open>chosen_bootstrap_contact\<close> alone
  and sets an invalid one to the contact delivered by the transport. The lambda does the
  opposite. On the freshly constructed node, whose chosen contact is the invalid default, a
  successful bootstrap off peer \<open>7\<close> leaves the chosen contact invalid; on the example node,
  whose chosen contact is the valid peer \<open>7\<close>, a successful bootstrap off peer \<open>6\<close> replaces it.
\<close>

theorem C1_on_bootstrap_chosen_contact:
  "on_bootstrap debug_build example_heap 2 0 True kSuccess peer_7 fresh_node =
     Inr (fresh_node, [BootstrapHandler None peer_7]) \<and>
   chosen_bootstrap_contact fresh_node = Contact_default \<and>
   \<not> IsValid_id (id_contact Contact_default) \<and>
   on_bootstrap debug_build example_heap 2 0 True kSuccess (peer_7\<lparr>id_contact := 6\<rparr>) example_node =
     Inr (example_node\<lparr>chosen_bootstrap_contact := peer_7\<lparr>id_contact := 6\<rparr>\<rparr>,
          [BootstrapHandler None (peer_7\<lparr>id_contact := 6\<rparr>)]) \<and>
   chosen_bootstrap_contact example_node = peer_7 \<and>
   IsValid_id (id_contact peer_7)"
  by (simp add: on_bootstrap_def invoke_bootstrap_def IsValid_id_def is_unspecified_def
      fresh_node_def Contact_default_def example_defs)

subsection \<open>An existing connection\<close>

text \<open>
  Claim C2 says that for a connection in state \<open>Bootstrapping\<close> or \<open>Unvalidated\<close> a new
  pending is created on the same transport. At the example node peer \<open>5\<close> is connected on
  transport \<open>1\<close> in state \<open>Unvalidated\<close>: \<open>ExistingConnection\<close> answers with the endpoints of
  transport \<open>1\<close> and "no established connection", and leaves the node as it is, without a
  pending for peer \<open>5\<close>.
\<close>

theorem C2_ExistingConnection_unvalidated_counterexample:
  "GetConnection (example_heap 1) 5 =
     Some \<lparr>state = kUnvalidated, PeerEndpoint = \<lparr>address = 205, port = 5483\<rparr>\<rparr> \<and>
   ExistingConnection debug_build example_heap 5
       \<lparr>local = Endpoint_default, external = Endpoint_default\<rparr> False example_node =
     Inr (True,
          \<lparr>local = \<lparr>address = 10, port = 5000\<rparr>, external = \<lparr>address = 77, port = 6000\<rparr>\<rparr>,
          False, example_node) \<and>
   FindPendingTransportWithNodeId 5 (pendings example_node) = None"
  by (simp add: ExistingConnection_def map_find_def example_defs)

text \<open>
  Claim C2, amended. For a peer with an entry in \<open>connections\<close> whose transport has a
  connection to it, \<open>ExistingConnection\<close> (step 2 of \<open>GetAvailableEndpoint\<close>) returns that
  transport's endpoints and "not yet connected" in the states \<open>Bootstrapping\<close> and
  \<open>Unvalidated\<close>; it creates a new pending on that same transport in the state
  \<open>Bootstrapping\<close> only, and leaves the directory unchanged in the state \<open>Unvalidated\<close>. In
  any other state it reports "already connected" and changes nothing. A debug build asserts
  in the first two cases that the transport is available and that the peer has no pending.
\<close>

theorem C2_ExistingConnection:
  assumes entry: "map_find peer_id (connections s) = Some transport"
      and connection: "GetConnection (h transport) peer_id = Some connection"
  shows
    "(state connection = kBootstrapping \<and>
      (NDEBUG cfg \<or>
       IsAvailable (h transport) \<and> FindPendingTransportWithNodeId peer_id (pendings s) = None) \<longrightarrow>
        ExistingConnection cfg h peer_id this_endpoint_pair connection_exists s =
          Inr (True,
               \<lparr>local = local_endpoint (h transport), external = external_endpoint (h transport)\<rparr>,
               False,
               s\<lparr>pendings := pendings s @
                    [\<lparr>node_id = peer_id, pending_transport = transport, connecting = False\<rparr>]\<rparr>)) \<and>
     (state connection = kUnvalidated \<and>
      (NDEBUG cfg \<or>
       IsAvailable (h transport) \<and> FindPendingTransportWithNodeId peer_id (pendings s) = None) \<longrightarrow>
        ExistingConnection cfg h peer_id this_endpoint_pair connection_exists s =
          Inr (True,
               \<lparr>local = local_endpoint (h transport), external = external_endpoint (h transport)\<rparr>,
               False, s)) \<and>
     (state connection \<noteq> kBootstrapping \<and> state connection \<noteq> kUnvalidated \<longrightarrow>
        ExistingConnection cfg h peer_id this_endpoint_pair connection_exists s =
          Inr (True, this_endpoint_pair, True, s))"
  using entry connection
  by (auto simp: ExistingConnection_def AddPending_def PendingConnection_new_def)

text \<open>At the example node: peers \<open>6\<close> (bootstrapping), \<open>5\<close> (unvalidated) and \<open>7\<close> (permanent).\<close>

theorem C2_ExistingConnection_witness:
  "ExistingConnection debug_build example_heap 6
       \<lparr>local = Endpoint_default, external = Endpoint_default\<rparr> False example_node =
     Inr (True,
          \<lparr>local = \<lparr>address = 10, port = 5000\<rparr>, external = \<lparr>address = 77, port = 6000\<rparr>\<rparr>,
          False,
          example_node\<lparr>pendings :=
            [\<lparr>node_id = 9, pending_transport = 2, connecting = False\<rparr>,
             \<lparr>node_id = 6, pending_transport = 1, connecting = False\<rparr>]\<rparr>) \<and>
   ExistingConnection debug_build example_heap 5
       \<lparr>local = Endpoint_default, external = Endpoint_default\<rparr> False example_node =
     Inr (True,
          \<lparr>local = \<lparr>address = 10, port = 5000\<rparr>, external = \<lparr>address = 77, port = 6000\<rparr>\<rparr>,
          False, example_node) \<and>
   ExistingConnection debug_build example_heap 7
       \<lparr>local = Endpoint_default, external = Endpoint_default\<rparr> False example_node =
     Inr (True, \<lparr>local = Endpoint_default, external = Endpoint_default\<rparr>, True, example_node)"
  using C2_ExistingConnection [of 6 example_node 1 example_heap
          "\<lparr>state = kBootstrapping, PeerEndpoint = \<lparr>address = 206, port = 5483\<rparr>\<rparr>" debug_build
          "\<lparr>local = Endpoint_default, external = Endpoint_default\<rparr>" False]
        C2_ExistingConnection [of 5 example_node 1 example_heap
          "\<lparr>state = kUnvalidated, PeerEndpoint = \<lparr>address = 205, port = 5483\<rparr>\<rparr>" debug_build
          "\<lparr>local = Endpoint_default, external = Endpoint_default\<rparr>" False]
        C2_ExistingConnection [of 7 example_node 1 example_heap
          "\<lparr>state = kPermanent, PeerEndpoint = \<lparr>address = 207, port = 5483\<rparr>\<rparr>" debug_build
          "\<lparr>local = Endpoint_default, external = Endpoint_default\<rparr>" False]
  by (simp add: example_defs map_find_def)

text \<open>
  Claim C10. When \<open>connections\<close> has an entry for \<open>peer_id\<close> but the transport has no
  connection to it, \<open>ExistingConnection\<close> erases the entry, touches neither out-parameter and
  returns \<open>false\<close>, in a debug build as in a release build. \<open>GetAvailableEndpoint\<close>, for a peer
  without a pending, then goes on to select a transport on the directory without the stale
  entry.
\<close>

theorem C10_ExistingConnection_stale_entry:
  assumes entry: "map_find peer_id (connections s) = Some transport"
      and stale: "GetConnection (h transport) peer_id = None"
  shows
    "ExistingConnection cfg h peer_id this_endpoint_pair connection_exists s =
       Inr (False, this_endpoint_pair, connection_exists,
            s\<lparr>connections := map_erase peer_id (connections s)\<rparr>) \<and>
     (\<forall>k. map_find k (map_erase peer_id (connections s)) =
            (if k = peer_id then None else map_find k (connections s))) \<and>
     (FindPendingTransportWithNodeId peer_id (pendings s) = None \<longrightarrow>
        GetAvailableEndpoint cfg h peer_id peer_hint s =
          SelectTransportForPeer cfg h peer_id peer_hint
            \<lparr>local = Endpoint_default, external = Endpoint_default\<rparr>
            (s\<lparr>connections := map_erase peer_id (connections s)\<rparr>))"
  using entry stale
  by (simp add: ExistingConnection_def GetAvailableEndpoint_def ExistingConnectionAttempt_def
      map_find_erase)

text \<open>
  The example node with a stale entry for peer \<open>8\<close> on transport \<open>1\<close>: the entry goes, and
  \<open>GetAvailableEndpoint\<close> reserves the idle transport \<open>2\<close> for peer \<open>8\<close>.
\<close>

theorem C10_ExistingConnection_stale_entry_witness:
  "ExistingConnection debug_build example_heap 8
       \<lparr>local = Endpoint_default, external = Endpoint_default\<rparr> False
       (example_node\<lparr>connections := [(5, 1), (6, 1), (7, 1), (8, 1)]\<rparr>) =
     Inr (False, \<lparr>local = Endpoint_default, external = Endpoint_default\<rparr>, False, example_node) \<and>
   GetAvailableEndpoint debug_build example_heap 8 (endpoint_pair peer_7)
       (example_node\<lparr>connections := [(5, 1), (6, 1), (7, 1), (8, 1)]\<rparr>) =
     Inr (Endpoints \<lparr>local = \<lparr>address = 10, port = 5001\<rparr>, external = Endpoint_default\<rparr> True,
          example_node\<lparr>pendings :=
            [\<lparr>node_id = 9, pending_transport = 2, connecting = False\<rparr>,
             \<lparr>node_id = 8, pending_transport = 2, connecting = False\<rparr>]\<rparr>,
          [StartNewTransportCall])"
proof -
  let ?s = "example_node\<lparr>connections := [(5, 1), (6, 1), (7, 1), (8, 1)]\<rparr>"
  let ?pair = "\<lparr>local = Endpoint_default, external = Endpoint_default\<rparr>"
  have entry: "map_find 8 (connections ?s) = Some 1"
    by (simp add: map_find_def)
  have stale: "GetConnection (example_heap 1) 8 = None"
    by (simp add: example_heap_def busy_transport_def example_connections_def)
  have no_pending: "FindPendingTransportWithNodeId 8 (pendings ?s) = None"
    by (simp add: example_node_def)
  have erased: "?s\<lparr>connections := map_erase 8 (connections ?s)\<rparr> = example_node"
    by (simp add: map_erase_def example_node_def)
  have idle: "SelectIdleTransport debug_build example_heap 8 ?pair example_node =
      Inr (True, \<lparr>local = \<lparr>address = 10, port = 5001\<rparr>, external = Endpoint_default\<rparr>,
           example_node\<lparr>pendings :=
            [\<lparr>node_id = 9, pending_transport = 2, connecting = False\<rparr>,
             \<lparr>node_id = 8, pending_transport = 2, connecting = False\<rparr>]\<rparr>)"
    by (subst SelectIdleTransport.simps)
       (simp add: example_node_def example_heap_def idle_transport_def debug_build_def
          AddPending_def PendingConnection_new_def)
  have start: "ShouldStartNewTransport debug_build (endpoint_pair peer_7) example_node"
    by (simp add: ShouldStartNewTransport_def static_cast_int_small example_node_def
        debug_build_def peer_7_def)
  have select: "SelectTransportForPeer debug_build example_heap 8 (endpoint_pair peer_7) ?pair
        example_node =
      Inr (Endpoints \<lparr>local = \<lparr>address = 10, port = 5001\<rparr>, external = Endpoint_default\<rparr> True,
          example_node\<lparr>pendings :=
            [\<lparr>node_id = 9, pending_transport = 2, connecting = False\<rparr>,
             \<lparr>node_id = 8, pending_transport = 2, connecting = False\<rparr>]\<rparr>,
          [StartNewTransportCall])"
    by (simp add: SelectTransportForPeer_def SelectAnyTransport_def idle start)
  show ?thesis
    using C10_ExistingConnection_stale_entry
            [of 8 ?s 1 example_heap debug_build ?pair False "endpoint_pair peer_7"]
          entry stale no_pending erased select
    by simp
qed

lemma GetAvailableEndpoint_pending:
  "FindPendingTransportWithNodeId peer_id (pendings s) = Some itr \<Longrightarrow>
   NDEBUG cfg \<or> IsAvailable (h (pending_transport (pendings s ! itr))) \<Longrightarrow>
     GetAvailableEndpoint cfg h peer_id peer_hint s =
       Inr (Endpoints
              \<lparr>local = local_endpoint (h (pending_transport (pendings s ! itr))),
               external = external_endpoint (h (pending_transport (pendings s ! itr)))\<rparr> False,
            s, [])"
  by (auto simp: GetAvailableEndpoint_def ExistingConnectionAttempt_def)

lemma GetAvailableEndpoint_after_reservation:
  assumes none: "FindPendingTransportWithNodeId peer_id ps = None"
      and added: "pendings s' = ps @ [PendingConnection_new peer_id t]"
      and avail: "NDEBUG cfg \<or> IsAvailable (h t)"
  shows "GetAvailableEndpoint cfg h peer_id peer_hint s' =
           Inr (Endpoints \<lparr>local = local_endpoint (h t), external = external_endpoint (h t)\<rparr> False,
                s', [])"
proof -
  have found: "FindPendingTransportWithNodeId peer_id (pendings s') = Some (length ps)"
    using Find_append_new [OF none, of "PendingConnection_new peer_id t"] added
    by (simp add: PendingConnection_new_def)
  have at: "pending_transport (pendings s' ! length ps) = t"
    using added by (simp add: PendingConnection_new_def)
  show ?thesis
    using GetAvailableEndpoint_pending [where s = s' and h = h and cfg = cfg and peer_hint = peer_hint,
        OF found] avail at by simp
qed

lemma SelectTransportForPeer_endpoints:
  assumes sel: "SelectTransportForPeer cfg h peer_id peer_hint pair0 s = Inr (Endpoints pair started, s1, evs)"
  shows "\<exists>t. pendings s1 = pendings s @ [PendingConnection_new peer_id t] \<and>
             pair = \<lparr>local = local_endpoint (h t), external = external_endpoint (h t)\<rparr> \<and>
             (NDEBUG cfg \<or> IsAvailable (h t))"
proof -
  from sel obtain found p' where any: "SelectAnyTransport cfg h peer_id pair0 s = Inr (found, p', s1)"
    by (auto simp: SelectTransportForPeer_def split: sum.splits)
  with sel have "found" and "p' = pair"
    by (auto simp: SelectTransportForPeer_def split: if_splits)
  with SelectAnyTransport_result [OF any] show ?thesis by simp
qed

lemma GetAvailableEndpoint_twice:
  assumes first: "GetAvailableEndpoint cfg h peer_id peer_hint s = Inr (Endpoints pair started, s1, evs)"
  shows "GetAvailableEndpoint cfg h peer_id peer_hint' s1 = Inr (Endpoints pair False, s1, [])"
proof (cases "FindPendingTransportWithNodeId peer_id (pendings s)")
  case (Some itr)
  with first have avail: "NDEBUG cfg \<or> IsAvailable (h (pending_transport (pendings s ! itr)))"
    by (auto simp: GetAvailableEndpoint_def ExistingConnectionAttempt_def split: if_splits)
  from GetAvailableEndpoint_pending [where h = h and cfg = cfg and peer_hint = peer_hint,
      OF Some avail] first
  have "s1 = s" and
    "pair = \<lparr>local = local_endpoint (h (pending_transport (pendings s ! itr))),
             external = external_endpoint (h (pending_transport (pendings s ! itr)))\<rparr>"
    by simp_all
  with GetAvailableEndpoint_pending [where h = h and cfg = cfg and peer_hint = peer_hint',
      OF Some avail] show ?thesis by simp
next
  case None
  let ?pair0 = "\<lparr>local = Endpoint_default, external = Endpoint_default\<rparr>"
  from None first obtain existing pair1 connection_exists s' where
    ec: "ExistingConnection cfg h peer_id ?pair0 False s = Inr (existing, pair1, connection_exists, s')"
    by (auto simp: GetAvailableEndpoint_def ExistingConnectionAttempt_def split: sum.splits)
  with None first have rest:
    "(if existing
      then (if connection_exists then Inr (AlreadyConnected, s', [])
            else Inr (Endpoints pair1 False, s', []))
      else SelectTransportForPeer cfg h peer_id peer_hint pair1 s') =
     Inr (Endpoints pair started, s1, evs)"
    by (simp add: GetAvailableEndpoint_def ExistingConnectionAttempt_def)
  show ?thesis
  proof (cases existing)
    case False
    with ec have same: "pendings s' = pendings s"
      by (auto simp: ExistingConnection_def split: option.splits if_splits)
    from False rest have "SelectTransportForPeer cfg h peer_id peer_hint pair1 s' =
        Inr (Endpoints pair started, s1, evs)" by simp
    from SelectTransportForPeer_endpoints [OF this] same obtain t where
      "pendings s1 = pendings s @ [PendingConnection_new peer_id t]"
      "pair = \<lparr>local = local_endpoint (h t), external = external_endpoint (h t)\<rparr>"
      "NDEBUG cfg \<or> IsAvailable (h t)"
      by auto
    with GetAvailableEndpoint_after_reservation
           [where h = h and cfg = cfg and peer_hint = peer_hint' and s' = s1 and t = t, OF None]
    show ?thesis by simp
  next
    case True
    with rest have ce: "\<not> connection_exists" and eq: "pair1 = pair" "s' = s1"
      by (auto split: if_splits)
    from ec True ce obtain t connection where
      entry: "map_find peer_id (connections s) = Some t" and
      conn: "GetConnection (h t) peer_id = Some connection" and
      st: "state connection = kBootstrapping \<or> state connection = kUnvalidated" and
      avail: "NDEBUG cfg \<or> IsAvailable (h t)" and
      p1: "pair1 = \<lparr>local = local_endpoint (h t), external = external_endpoint (h t)\<rparr>" and
      s': "s' = (if state connection = kBootstrapping
                 then AddPending (PendingConnection_new peer_id t) s else s)"
      by (auto simp: ExistingConnection_def split: option.splits if_splits)
    show ?thesis
    proof (cases "state connection = kBootstrapping")
      case True
      with s' eq have "pendings s1 = pendings s @ [PendingConnection_new peer_id t]"
        by (simp add: AddPending_def)
      from GetAvailableEndpoint_after_reservation
             [where h = h and cfg = cfg and peer_hint = peer_hint', OF None this avail] p1 eq
      show ?thesis by simp
    next
      case False
      with s' eq have "s1 = s" by simp
      moreover have "GetAvailableEndpoint cfg h peer_id peer_hint' s =
          Inr (Endpoints pair1 False, s', [])"
        using None ec \<open>existing\<close> ce
        by (simp add: GetAvailableEndpoint_def ExistingConnectionAttempt_def)
      ultimately show ?thesis using eq by simp
    qed
  qed
qed

subsection \<open>Reserving an endpoint twice\<close>

text \<open>
  Claim C9. \<open>GetAvailableEndpoint\<close> is idempotent per peer. For a peer with a pending,
  \<open>ExistingConnectionAttempt\<close> answers with the local and external endpoints of that
  pending's transport, and \<open>GetAvailableEndpoint\<close> returns them and leaves the directory as it
  is, so no second pending is created (a debug build asserts that the transport is
  available). Hence whenever a call of \<open>GetAvailableEndpoint\<close> for a peer returns endpoints,
  the next call for that peer returns the same endpoints and changes nothing.
\<close>

theorem C9_GetAvailableEndpoint_idempotent:
  "(\<forall>itr. FindPendingTransportWithNodeId peer_id (pendings s) = Some itr \<and>
          (NDEBUG cfg \<or> IsAvailable (h (pending_transport (pendings s ! itr)))) \<longrightarrow>
      ExistingConnectionAttempt cfg h peer_id this_endpoint_pair s =
        Inr (True,
             \<lparr>local = local_endpoint (h (pending_transport (pendings s ! itr))),
              external = external_endpoint (h (pending_transport (pendings s ! itr)))\<rparr>) \<and>
      GetAvailableEndpoint cfg h peer_id peer_hint s =
        Inr (Endpoints
               \<lparr>local = local_endpoint (h (pending_transport (pendings s ! itr))),
                external = external_endpoint (h (pending_transport (pendings s ! itr)))\<rparr> False,
             s, [])) \<and>
   (\<forall>pair started s1 evs.
      GetAvailableEndpoint cfg h peer_id peer_hint s = Inr (Endpoints pair started, s1, evs) \<longrightarrow>
      GetAvailableEndpoint cfg h peer_id peer_hint s1 = Inr (Endpoints pair False, s1, []))"
proof (intro conjI allI impI)
  fix itr
  assume a: "FindPendingTransportWithNodeId peer_id (pendings s) = Some itr \<and>
          (NDEBUG cfg \<or> IsAvailable (h (pending_transport (pendings s ! itr))))"
  then show "ExistingConnectionAttempt cfg h peer_id this_endpoint_pair s =
        Inr (True,
             \<lparr>local = local_endpoint (h (pending_transport (pendings s ! itr))),
              external = external_endpoint (h (pending_transport (pendings s ! itr)))\<rparr>)"
    by (auto simp: ExistingConnectionAttempt_def)
  from a show "GetAvailableEndpoint cfg h peer_id peer_hint s =
        Inr (Endpoints
               \<lparr>local = local_endpoint (h (pending_transport (pendings s ! itr))),
                external = external_endpoint (h (pending_transport (pendings s ! itr)))\<rparr> False,
             s, [])"
    by (simp add: GetAvailableEndpoint_pending)
next
  fix pair started s1 evs
  assume "GetAvailableEndpoint cfg h peer_id peer_hint s = Inr (Endpoints pair started, s1, evs)"
  then show "GetAvailableEndpoint cfg h peer_id peer_hint s1 = Inr (Endpoints pair False, s1, [])"
    by (rule GetAvailableEndpoint_twice)
qed

text \<open>
  At the example node: peer \<open>9\<close> holds a reservation on transport \<open>2\<close>; peer \<open>6\<close>, a bootstrap
  connection on transport \<open>1\<close>, is given a reservation by the first call and the same
  endpoints by the second.
\<close>

theorem C9_GetAvailableEndpoint_idempotent_witness:
  "ExistingConnectionAttempt debug_build example_heap 9
       \<lparr>local = Endpoint_default, external = Endpoint_default\<rparr> example_node =
     Inr (True, \<lparr>local = \<lparr>address = 10, port = 5001\<rparr>, external = Endpoint_default\<rparr>) \<and>
   GetAvailableEndpoint debug_build example_heap 9 (endpoint_pair peer_7) example_node =
     Inr (Endpoints \<lparr>local = \<lparr>address = 10, port = 5001\<rparr>, external = Endpoint_default\<rparr> False,
          example_node, []) \<and>
   GetAvailableEndpoint debug_build example_heap 6 (endpoint_pair peer_7) example_node =
     Inr (Endpoints \<lparr>local = \<lparr>address = 10, port = 5000\<rparr>, external = \<lparr>address = 77, port = 6000\<rparr>\<rparr>
            False,
          example_node\<lparr>pendings :=
            [\<lparr>node_id = 9, pending_transport = 2, connecting = False\<rparr>,
             \<lparr>node_id = 6, pending_transport = 1, connecting = False\<rparr>]\<rparr>, []) \<and>
   GetAvailableEndpoint debug_build example_heap 6 (endpoint_pair peer_7)
       (example_node\<lparr>pendings :=
            [\<lparr>node_id = 9, pending_transport = 2, connecting = False\<rparr>,
             \<lparr>node_id = 6, pending_transport = 1, connecting = False\<rparr>]\<rparr>) =
     Inr (Endpoints \<lparr>local = \<lparr>address = 10, port = 5000\<rparr>, external = \<lparr>address = 77, port = 6000\<rparr>\<rparr>
            False,
          example_node\<lparr>pendings :=
            [\<lparr>node_id = 9, pending_transport = 2, connecting = False\<rparr>,
             \<lparr>node_id = 6, pending_transport = 1, connecting = False\<rparr>]\<rparr>, [])"
proof -
  let ?pair0 = "\<lparr>local = Endpoint_default, external = Endpoint_default\<rparr>"
  have pending: "FindPendingTransportWithNodeId 9 (pendings example_node) = Some 0"
    by (simp add: example_node_def)
  have avail: "IsAvailable (example_heap (pending_transport (pendings example_node ! 0)))"
    by (simp add: example_node_def example_heap_def idle_transport_def)
  have ends:
    "local_endpoint (example_heap (pending_transport (pendings example_node ! 0))) =
       \<lparr>address = 10, port = 5001\<rparr>"
    "external_endpoint (example_heap (pending_transport (pendings example_node ! 0))) =
       Endpoint_default"
    by (simp_all add: example_node_def example_heap_def idle_transport_def)
  have first: "GetAvailableEndpoint debug_build example_heap 6 (endpoint_pair peer_7) example_node =
     Inr (Endpoints \<lparr>local = \<lparr>address = 10, port = 5000\<rparr>, external = \<lparr>address = 77, port = 6000\<rparr>\<rparr>
            False,
          example_node\<lparr>pendings :=
            [\<lparr>node_id = 9, pending_transport = 2, connecting = False\<rparr>,
             \<lparr>node_id = 6, pending_transport = 1, connecting = False\<rparr>]\<rparr>, [])"
    by (simp add: GetAvailableEndpoint_def ExistingConnectionAttempt_def ExistingConnection_def
        map_find_def AddPending_def PendingConnection_new_def example_defs)
  have reserved:
    "ExistingConnectionAttempt debug_build example_heap 9 ?pair0 example_node =
       Inr (True,
            \<lparr>local = local_endpoint (example_heap (pending_transport (pendings example_node ! 0))),
             external = external_endpoint (example_heap (pending_transport (pendings example_node ! 0)))\<rparr>) \<and>
     GetAvailableEndpoint debug_build example_heap 9 (endpoint_pair peer_7) example_node =
       Inr (Endpoints
              \<lparr>local = local_endpoint (example_heap (pending_transport (pendings example_node ! 0))),
               external = external_endpoint (example_heap (pending_transport (pendings example_node ! 0)))\<rparr>
              False,
            example_node, [])"
    using C9_GetAvailableEndpoint_idempotent
            [of 9 example_node debug_build example_heap ?pair0 "endpoint_pair peer_7"]
          pending avail
    by blast
  have again:
    "GetAvailableEndpoint debug_build example_heap 6 (endpoint_pair peer_7)
       (example_node\<lparr>pendings :=
            [\<lparr>node_id = 9, pending_transport = 2, connecting = False\<rparr>,
             \<lparr>node_id = 6, pending_transport = 1, connecting = False\<rparr>]\<rparr>) =
     Inr (Endpoints \<lparr>local = \<lparr>address = 10, port = 5000\<rparr>, external = \<lparr>address = 77, port = 6000\<rparr>\<rparr>
            False,
          example_node\<lparr>pendings :=
            [\<lparr>node_id = 9, pending_transport = 2, connecting = False\<rparr>,
             \<lparr>node_id = 6, pending_transport = 1, connecting = False\<rparr>]\<rparr>, [])"
    using C9_GetAvailableEndpoint_idempotent
            [of 6 example_node debug_build example_heap ?pair0 "endpoint_pair peer_7"]
          first
    by blast
  show ?thesis
    using reserved again first by (simp only: ends simp_thms)
qed

end
